theory Spec2Isabelle
  imports Main
begin

section \<open>Parsed HTML documents\<close>

text \<open>
  The programs hand the response body to an HTML parser and then walk the parse tree.
  A node of that tree is either a piece of text or a tag with a name, the list of its
  classes (the parser keeps the \<open>class\<close> attribute as a list of tokens) and its children
  in document order.
\<close>

datatype node = NavigableString string | Tag string "string list" "node list"

fun is_named :: "string \<Rightarrow> node \<Rightarrow> bool" where
  "is_named nm (NavigableString s) = False"
| "is_named nm (Tag n cls kids) = (n = nm)"

fun has_class :: "string \<Rightarrow> node \<Rightarrow> bool" where
  "has_class c (NavigableString s) = False"
| "has_class c (Tag n cls kids) = (c \<in> set cls)"

text \<open>
  \<open>tag.find_all(...)\<close>: every descendant that matches, in document order (a matching
  tag comes before the matching tags inside it). The tag itself is not a candidate.
\<close>

fun find_all_by :: "(node \<Rightarrow> bool) \<Rightarrow> node \<Rightarrow> node list" where
  "find_all_by P (NavigableString s) = []"
| "find_all_by P (Tag n cls kids) =
     concat (map (\<lambda>k. (if P k then [k] else []) @ find_all_by P k) kids)"

definition find_all :: "string \<Rightarrow> node \<Rightarrow> node list" where
  "find_all nm t = find_all_by (is_named nm) t"

text \<open>\<open>tag.find(...)\<close>: the first match of \<open>find_all\<close>, or \<open>None\<close>.\<close>

definition find_first :: "(node \<Rightarrow> bool) \<Rightarrow> node \<Rightarrow> node option" where
  "find_first P t = (case find_all_by P t of [] \<Rightarrow> None | k # _ \<Rightarrow> Some k)"

text \<open>\<open>tag.text\<close>: the texts below the tag, concatenated in document order.\<close>

fun get_text :: "node \<Rightarrow> string" where
  "get_text (NavigableString s) = s"
| "get_text (Tag n cls kids) = concat (map get_text kids)"

text \<open>
  \<open>str.strip()\<close> removes leading and trailing whitespace. A \<open>char\<close> stands for a code
  point below 256; the whitespace code points in that range are listed.
\<close>

definition isspace :: "char \<Rightarrow> bool" where
  "isspace c = (of_char c \<in> {9, 10, 11, 12, 13, 28, 29, 30, 31, 32, 133, 160 :: nat})"

definition strip :: "string \<Rightarrow> string" where
  "strip s = rev (dropWhile isspace (rev (dropWhile isspace s)))"

definition cell_text :: "node \<Rightarrow> string" where
  "cell_text c = strip (get_text c)"

section \<open>Tables\<close>

text \<open>
  A cell of a data frame holds a string, a number or the null marker (\<open>None\<close>/\<open>NaN\<close>).
  The number type is left open: parsing text into numbers is the data-frame library's
  work and enters the model as a parameter.
\<close>

datatype 'n cell = Str string | Num 'n | Null

record 'n frame =
  columns :: "string list"
  rows :: "'n cell list list"

text \<open>\<open>pd.DataFrame()\<close>: no columns, no rows.\<close>

definition empty_DataFrame :: "'n frame" where
  "empty_DataFrame = \<lparr>columns = [], rows = []\<rparr>"

text \<open>\<open>df.empty\<close>: true when one of the two axes has length zero.\<close>

definition empty :: "'n frame \<Rightarrow> bool" where
  "empty df = (columns df = [] \<or> rows df = [])"

text \<open>
  The exceptions the programs can meet. \<open>NoTableFound\<close> is the \<open>ValueError\<close> the
  fetch functions raise themselves, \<open>ShapeMismatch\<close> the \<open>ValueError\<close> of the frame
  constructor, \<open>UnableToParse\<close> the \<open>ValueError\<close> of the numeric conversion.
\<close>

datatype error =
    RequestException
  | HTTPError
  | NoTableFound
  | ShapeMismatch
  | UnableToParse
  | IndexError
  | KeyError string
  | TypeError
  | AttributeError

definition bind_err :: "error + 'a \<Rightarrow> ('a \<Rightarrow> error + 'b) \<Rightarrow> error + 'b" where
  "bind_err m f = (case m of Inl e \<Rightarrow> Inl e | Inr v \<Rightarrow> f v)"

text \<open>
  \<open>pd.DataFrame(data, columns=headers)\<close> for a list of lists of strings. With no row the
  frame has the given columns and no rows. Otherwise the rows are padded with the null
  marker to the length of the longest one, and that length must be the number of column
  labels: if it is not, the constructor raises \<open>ValueError\<close>
  ("n columns passed, passed data had m columns").
\<close>

definition width :: "'a list list \<Rightarrow> nat" where
  "width data = foldr max (map length data) 0"

definition pad_row :: "nat \<Rightarrow> string list \<Rightarrow> 'n cell list" where
  "pad_row w r = map Str r @ replicate (w - length r) Null"

definition DataFrame :: "string list list \<Rightarrow> string list \<Rightarrow> error + 'n frame" where
  "DataFrame data cols =
     (if data = [] then Inr \<lparr>columns = cols, rows = []\<rparr>
      else if width data \<noteq> length cols then Inl ShapeMismatch
      else Inr \<lparr>columns = cols, rows = map (pad_row (width data)) data\<rparr>)"


subsection \<open>Reading and writing columns\<close>

fun index_of :: "'a \<Rightarrow> 'a list \<Rightarrow> nat option" where
  "index_of x [] = None"
| "index_of x (y # ys) = (if x = y then Some 0 else map_option Suc (index_of x ys))"

text \<open>
  \<open>df[col]\<close> for a label: the values of that column, \<open>KeyError\<close> when there is no such
  column. (When the label is repeated the library returns a sub-frame instead; the model
  reads the first such column, and the properties below are stated for frames whose
  labels are distinct wherever a column is read by label.)
\<close>

definition getitem :: "'n frame \<Rightarrow> string \<Rightarrow> error + 'n cell list" where
  "getitem df col =
     (case index_of col (columns df) of
        None \<Rightarrow> Inl (KeyError col)
      | Some i \<Rightarrow> Inr (map (\<lambda>r. r ! i) (rows df)))"

text \<open>
  \<open>df[col] = values\<close>: replaces the column when the label exists, appends a new last
  column otherwise. The programs always assign as many values as the frame has rows.
\<close>

definition setitem :: "'n frame \<Rightarrow> string \<Rightarrow> 'n cell list \<Rightarrow> 'n frame" where
  "setitem df col vs =
     (case index_of col (columns df) of
        None \<Rightarrow> \<lparr>columns = columns df @ [col], rows = map (\<lambda>(r, v). r @ [v]) (zip (rows df) vs)\<rparr>
      | Some i \<Rightarrow> \<lparr>columns = columns df, rows = map (\<lambda>(r, v). r[i := v]) (zip (rows df) vs)\<rparr>)"

text \<open>\<open>df.to_dict("records")\<close>: one dictionary per row, from column label to value.\<close>

definition to_dict_records :: "'n frame \<Rightarrow> (string \<rightharpoonup> 'n cell) list" where
  "to_dict_records df = map (\<lambda>r. map_of (rev (zip (columns df) r))) (rows df)"

text \<open>
  A frame always has one value per column in every row. The labels of the tables the
  dashboards work on are distinct.
\<close>

definition rectangular :: "'n frame \<Rightarrow> bool" where
  "rectangular df = (\<forall>r\<in>set (rows df). length r = length (columns df))"

definition well_formed :: "'n frame \<Rightarrow> bool" where
  "well_formed df = (distinct (columns df) \<and> rectangular df)"

subsection \<open>Numeric coercion\<close>

text \<open>
  \<open>pd.to_numeric(series, errors=...)\<close>. The parser of numeric text is a parameter
  \<open>p\<close>: \<open>p s = None\<close> says that \<open>s\<close> is not the text of a number. With
  \<open>errors="raise"\<close> such a text raises; with \<open>errors="coerce"\<close>, which is what the
  programs pass, it becomes the null marker. Numbers and nulls stay as they are.
\<close>

datatype errors = errors_raise | errors_coerce

fun to_numeric_value :: "errors \<Rightarrow> (string \<Rightarrow> 'n option) \<Rightarrow> 'n cell \<Rightarrow> error + 'n cell" where
  "to_numeric_value e p (Num n) = Inr (Num n)"
| "to_numeric_value e p Null = Inr Null"
| "to_numeric_value e p (Str s) =
     (case p s of
        Some n \<Rightarrow> Inr (Num n)
      | None \<Rightarrow> (case e of errors_raise \<Rightarrow> Inl UnableToParse | errors_coerce \<Rightarrow> Inr Null))"

fun to_numeric :: "errors \<Rightarrow> (string \<Rightarrow> 'n option) \<Rightarrow> 'n cell list \<Rightarrow> error + 'n cell list" where
  "to_numeric e p [] = Inr []"
| "to_numeric e p (c # cs) =
     bind_err (to_numeric_value e p c) (\<lambda>v. bind_err (to_numeric e p cs) (\<lambda>vs. Inr (v # vs)))"

text \<open>The value that \<open>errors="coerce"\<close> is meant to give: a number, or the null marker.\<close>

definition coerced :: "(string \<Rightarrow> 'n option) \<Rightarrow> 'n cell \<Rightarrow> 'n cell" where
  "coerced p c =
     (case c of Str s \<Rightarrow> (case p s of Some n \<Rightarrow> Num n | None \<Rightarrow> Null) | Num n \<Rightarrow> Num n | Null \<Rightarrow> Null)"

text \<open>
  \<open>df[col] = pd.to_numeric(df[col], errors="coerce")\<close>. When the label is repeated,
  \<open>df[col]\<close> is a frame and \<open>to_numeric\<close> raises \<open>TypeError\<close>.
\<close>

definition coerce_column :: "(string \<Rightarrow> 'n option) \<Rightarrow> string \<Rightarrow> 'n frame \<Rightarrow> error + 'n frame" where
  "coerce_column p col df =
     bind_err (getitem df col) (\<lambda>series.
       if 1 < count_list (columns df) col then Inl TypeError
       else bind_err (to_numeric errors_coerce p series) (\<lambda>vs. Inr (setitem df col vs)))"

text \<open>\<open>for col in cols: df[col] = pd.to_numeric(df[col], errors="coerce")\<close>\<close>

fun coerce_columns :: "(string \<Rightarrow> 'n option) \<Rightarrow> string list \<Rightarrow> 'n frame \<Rightarrow> error + 'n frame" where
  "coerce_columns p [] df = Inr df"
| "coerce_columns p (col # cols) df = bind_err (coerce_column p col df) (coerce_columns p cols)"

text \<open>The same loop with the guard \<open>if col in df.columns\<close> (fieldgoalpercentage.py).\<close>

fun coerce_present_columns ::
  "(string \<Rightarrow> 'n option) \<Rightarrow> string list \<Rightarrow> 'n frame \<Rightarrow> error + 'n frame" where
  "coerce_present_columns p [] df = Inr df"
| "coerce_present_columns p (col # cols) df =
     (if col \<in> set (columns df)
      then bind_err (coerce_column p col df) (coerce_present_columns p cols)
      else coerce_present_columns p cols df)"

text \<open>avgpointspergame.py: \<open>for col in df.columns[2:]\<close>.\<close>

definition avgpoints_coerce :: "(string \<Rightarrow> 'n option) \<Rightarrow> 'n frame \<Rightarrow> error + 'n frame" where
  "avgpoints_coerce p df = coerce_columns p (drop 2 (columns df)) df"

section \<open>Fetching\<close>

text \<open>
  The outcome of \<open>requests.get\<close> is an input of the model: the call raises, or it returns
  a response with a status code and a body, given here as the parse tree of the body.
\<close>

datatype http_result = RequestFailed | Response int node

text \<open>\<open>response.raise_for_status()\<close> raises for the status codes 400 to 599.\<close>

definition raise_for_status :: "int \<Rightarrow> error + unit" where
  "raise_for_status st = (if 400 \<le> st \<and> st < 600 then Inl HTTPError else Inr ())"

text \<open>What the programs print.\<close>

datatype diag = Error_while_fetching_data error | No_data_was_retrieved

text \<open>\<open>[header.text.strip() for header in table.find_all("th")]\<close>\<close>

definition headers_of :: "node \<Rightarrow> string list" where
  "headers_of table = map cell_text (find_all ''th'' table)"

text \<open>\<open>table.find_all("tr")[1:]\<close>\<close>

definition body_rows :: "node \<Rightarrow> node list" where
  "body_rows table = drop 1 (find_all ''tr'' table)"

subsection \<open>rankings.py\<close>

definition rankings_data :: "node \<Rightarrow> string list list" where
  "rankings_data table =
     map (map cell_text) (filter (\<lambda>cells. cells \<noteq> []) (map (find_all ''td'') (body_rows table)))"

text \<open>The body of the \<open>try\<close> block.\<close>

definition rankings_try :: "http_result \<Rightarrow> error + 'n frame" where
  "rankings_try r =
     (case r of
        RequestFailed \<Rightarrow> Inl RequestException
      | Response st soup \<Rightarrow>
          bind_err (raise_for_status st) (\<lambda>_.
            case find_first (is_named ''table'') soup of
              None \<Rightarrow> Inl NoTableFound
            | Some table \<Rightarrow> DataFrame (rankings_data table) (headers_of table)))"

text \<open>\<open>except Exception\<close>: print the error and return \<open>pd.DataFrame()\<close>.\<close>

definition rankings_fetch_ncaa_net_rankings :: "http_result \<Rightarrow> 'n frame \<times> diag list" where
  "rankings_fetch_ncaa_net_rankings r =
     (case rankings_try r of
        Inl e \<Rightarrow> (empty_DataFrame, [Error_while_fetching_data e])
      | Inr df \<Rightarrow> (df, []))"

text \<open>The module body of rankings.py: fetch, placeholder, layout.\<close>

definition rankings_placeholder :: "'n frame" where
  "rankings_placeholder = \<lparr>columns = [''Rank'', ''Team'', ''Conference'', ''Overall''], rows = []\<rparr>"

record 'n layout =
  lay_title :: string
  lay_columns :: "(string \<times> string) list"
  lay_data :: "(string \<rightharpoonup> 'n cell) list"
  lay_page_size :: nat

definition rankings_dashboard :: "http_result \<Rightarrow> 'n layout \<times> diag list" where
  "rankings_dashboard r =
     (case rankings_fetch_ncaa_net_rankings r of
        (fetched, out) \<Rightarrow>
          (case (if empty fetched then (rankings_placeholder, out @ [No_data_was_retrieved])
                 else (fetched, out)) of
             (rankings_df, out') \<Rightarrow>
               (\<lparr>lay_title = ''NCAA Men's Basketball NET Rankings'',
                 lay_columns = map (\<lambda>col. (col, col)) (columns rankings_df),
                 lay_data = to_dict_records rankings_df,
                 lay_page_size = 50\<rparr>, out')))"

subsection \<open>app.py\<close>

text \<open>
  The fetch functions of app.py have no \<open>try\<close>, do not look at the status and keep
  the rows without cells. \<open>table.find_all\<close> on \<open>None\<close> raises \<open>AttributeError\<close>.
\<close>

definition app_data :: "node \<Rightarrow> string list list" where
  "app_data table = map (\<lambda>row. map cell_text (find_all ''td'' row)) (body_rows table)"

definition app_fetch_ncaa_net_rankings :: "http_result \<Rightarrow> error + 'n frame" where
  "app_fetch_ncaa_net_rankings r =
     (case r of
        RequestFailed \<Rightarrow> Inl RequestException
      | Response st soup \<Rightarrow>
          (case find_first (is_named ''table'') soup of
             None \<Rightarrow> Inl AttributeError
           | Some table \<Rightarrow> DataFrame (app_data table) (headers_of table)))"

subsection \<open>stats.py and fieldgoalpercentage.py\<close>

text \<open>\<open>cells[1].find("a", class_="school")\<close> and the fallback to the sentinel.\<close>

definition team_name :: "node \<Rightarrow> string" where
  "team_name cell =
     (case find_first (\<lambda>k. is_named ''a'' k \<and> has_class ''school'' k) cell of
        None \<Rightarrow> ''Unknown Team''
      | Some team_cell \<Rightarrow> cell_text team_cell)"

text \<open>One data row, given its cells (not empty). \<open>cells[1]\<close> needs two cells.\<close>

definition stats_row :: "node list \<Rightarrow> error + string list" where
  "stats_row cells =
     (if length cells < 2 then Inl IndexError
      else Inr ((map cell_text cells)[1 := team_name (cells ! 1)]))"

fun stats_data :: "node list \<Rightarrow> error + string list list" where
  "stats_data [] = Inr []"
| "stats_data (row # rest) =
     (if find_all ''td'' row = [] then stats_data rest
      else bind_err (stats_row (find_all ''td'' row)) (\<lambda>cols.
             bind_err (stats_data rest) (\<lambda>data. Inr (cols # data))))"

definition stats_try :: "(string \<Rightarrow> 'n option) \<Rightarrow> http_result \<Rightarrow> error + 'n frame" where
  "stats_try p r =
     (case r of
        RequestFailed \<Rightarrow> Inl RequestException
      | Response st soup \<Rightarrow>
          bind_err (raise_for_status st) (\<lambda>_.
            case find_first (is_named ''table'') soup of
              None \<Rightarrow> Inl NoTableFound
            | Some table \<Rightarrow>
                bind_err (stats_data (body_rows table)) (\<lambda>data.
                  bind_err (DataFrame data (headers_of table)) (\<lambda>df.
                    coerce_columns p (drop 2 (headers_of table)) df))))"

definition stats_fetch_ncaa_team_stats ::
  "(string \<Rightarrow> 'n option) \<Rightarrow> http_result \<Rightarrow> 'n frame \<times> diag list" where
  "stats_fetch_ncaa_team_stats p r =
     (case stats_try p r of
        Inl e \<Rightarrow> (empty_DataFrame, [Error_while_fetching_data e])
      | Inr df \<Rightarrow> (df, []))"

text \<open>\<open>if "Conference" not in df.columns: df["Conference"] = ["Unknown Conference"] * len(df)\<close>\<close>

definition ensure_conference :: "'n frame \<Rightarrow> 'n frame" where
  "ensure_conference df =
     (if ''Conference'' \<in> set (columns df) then df
      else setitem df ''Conference'' (replicate (length (rows df)) (Str ''Unknown Conference'')))"

definition fgp_try :: "(string \<Rightarrow> 'n option) \<Rightarrow> http_result \<Rightarrow> error + 'n frame" where
  "fgp_try p r =
     (case r of
        RequestFailed \<Rightarrow> Inl RequestException
      | Response st soup \<Rightarrow>
          bind_err (raise_for_status st) (\<lambda>_.
            case find_first (is_named ''table'') soup of
              None \<Rightarrow> Inl NoTableFound
            | Some table \<Rightarrow>
                bind_err (stats_data (body_rows table)) (\<lambda>data.
                  bind_err (DataFrame data (headers_of table)) (\<lambda>df.
                    bind_err (coerce_present_columns p (drop 2 (headers_of table)) df) (\<lambda>df'.
                      Inr (ensure_conference df'))))))"

definition fgp_fetch_ncaa_team_stats ::
  "(string \<Rightarrow> 'n option) \<Rightarrow> http_result \<Rightarrow> 'n frame \<times> diag list" where
  "fgp_fetch_ncaa_team_stats p r =
     (case fgp_try p r of
        Inl e \<Rightarrow> (empty_DataFrame, [Error_while_fetching_data e])
      | Inr df \<Rightarrow> (df, []))"

section \<open>Merging statistics and rankings\<close>

text \<open>\<open>rankings_df[["Team", "Rank"]]\<close>: the two columns, \<open>KeyError\<close> when one is missing.\<close>

definition select_team_rank :: "'n frame \<Rightarrow> error + 'n frame" where
  "select_team_rank df =
     bind_err (getitem df ''Team'') (\<lambda>teams.
       bind_err (getitem df ''Rank'') (\<lambda>ranks.
         Inr \<lparr>columns = [''Team'', ''Rank''], rows = map (\<lambda>(t, r). [t, r]) (zip teams ranks)\<rparr>))"

definition remove_nth :: "nat \<Rightarrow> 'a list \<Rightarrow> 'a list" where
  "remove_nth j xs = take j xs @ drop (Suc j) xs"

text \<open>
  \<open>pd.merge(left, right, on=key, how="left")\<close>: every row of \<open>left\<close>, in order, once for
  each row of \<open>right\<close> with the same key, and once with nulls when there is none. The
  columns are those of \<open>left\<close> followed by those of \<open>right\<close> without the key; a label
  other than the key that occurs on both sides gets the suffix \<open>_x\<close> on the left and
  \<open>_y\<close> on the right. A missing key is a \<open>KeyError\<close>. (The library refuses to merge a
  text key with a numeric one; the properties below are stated for text keys.)
\<close>

definition pd_merge_left :: "string \<Rightarrow> 'n frame \<Rightarrow> 'n frame \<Rightarrow> error + 'n frame" where
  "pd_merge_left key left right =
     (case index_of key (columns left) of
        None \<Rightarrow> Inl (KeyError key)
      | Some i \<Rightarrow>
          (case index_of key (columns right) of
             None \<Rightarrow> Inl (KeyError key)
           | Some j \<Rightarrow>
               (let lcols = columns left;
                    rcols = remove_nth j (columns right);
                    overlap = (\<lambda>c. c \<noteq> key \<and> c \<in> set lcols \<and> c \<in> set rcols)
                in Inr \<lparr>columns =
                          map (\<lambda>c. if overlap c then c @ ''_x'' else c) lcols @
                          map (\<lambda>c. if overlap c then c @ ''_y'' else c) rcols,
                        rows =
                          concat (map (\<lambda>l.
                            case filter (\<lambda>r. r ! j = l ! i) (rows right) of
                              [] \<Rightarrow> [l @ replicate (length rcols) Null]
                            | ms \<Rightarrow> map (\<lambda>r. l @ remove_nth j r) ms) (rows left))\<rparr>)))"

definition merge_stats_and_rankings :: "'n frame \<Rightarrow> 'n frame \<Rightarrow> error + 'n frame" where
  "merge_stats_and_rankings stats_df rankings_df =
     (if \<not> empty stats_df \<and> \<not> empty rankings_df
      then bind_err (select_team_rank rankings_df) (\<lambda>right.
             bind_err (pd_merge_left ''Team'' stats_df right) (\<lambda>merged_df.
               Inr (ensure_conference merged_df)))
      else Inr stats_df)"

section \<open>The update callbacks\<close>

record 'n trace =
  trace_x :: "'n cell list"
  trace_y :: "'n cell list"
  trace_type :: string
  trace_name :: string

record 'n figure =
  fig_data :: "'n trace list"
  fig_title :: string
  fig_xaxis_title :: string
  fig_yaxis_title :: string
  fig_barmode :: "string option"

text \<open>A dropdown value is \<open>None\<close> or the chosen values; \<open>None\<close> and the empty value are falsy.\<close>

definition selection :: "'a list option \<Rightarrow> 'a list" where
  "selection sel = (case sel of None \<Rightarrow> [] | Some xs \<Rightarrow> xs)"

definition placeholder_figure :: "'n figure" where
  "placeholder_figure =
     \<lparr>fig_data = [], fig_title = ''Select Stats to Display'', fig_xaxis_title = ''Team'',
      fig_yaxis_title = ''Value'', fig_barmode = None\<rparr>"

text \<open>
  \<open>[{"x": df["Team"], "y": df[stat], "type": "bar", "name": stat} for stat in stats]\<close>
\<close>

fun bar_traces :: "'n frame \<Rightarrow> string list \<Rightarrow> error + 'n trace list" where
  "bar_traces df [] = Inr []"
| "bar_traces df (stat # stats) =
     bind_err (getitem df ''Team'') (\<lambda>xs.
       bind_err (getitem df stat) (\<lambda>ys.
         bind_err (bar_traces df stats) (\<lambda>ts.
           Inr (\<lparr>trace_x = xs, trace_y = ys, trace_type = ''bar'', trace_name = stat\<rparr> # ts))))"

definition bar_figure :: "string \<Rightarrow> 'n frame \<Rightarrow> string list \<Rightarrow> error + 'n figure" where
  "bar_figure title df stats =
     bind_err (bar_traces df stats) (\<lambda>ts.
       Inr \<lparr>fig_data = ts, fig_title = title, fig_xaxis_title = ''Team'',
            fig_yaxis_title = ''Value'', fig_barmode = Some ''group''\<rparr>)"

subsection \<open>stats.py (and avgpointspergame.py, which has the same callback)\<close>

text \<open>\<open>filtered_df[filtered_df["Team"].isin(selected_teams)]\<close>\<close>

definition filter_isin :: "'n frame \<Rightarrow> string \<Rightarrow> string list \<Rightarrow> error + 'n frame" where
  "filter_isin df col values =
     (case index_of col (columns df) of
        None \<Rightarrow> Inl (KeyError col)
      | Some i \<Rightarrow> Inr (df\<lparr>rows := filter (\<lambda>r. \<exists>v\<in>set values. r ! i = Str v) (rows df)\<rparr>))"

definition stats_filter :: "'n frame \<Rightarrow> string list option \<Rightarrow> error + 'n frame" where
  "stats_filter team_stats_df selected_teams =
     (if selection selected_teams \<noteq> []
      then filter_isin team_stats_df ''Team'' (selection selected_teams)
      else Inr team_stats_df)"

definition stats_update_dashboard ::
  "'n frame \<Rightarrow> string list option \<Rightarrow> string list option
     \<Rightarrow> error + ('n figure \<times> (string \<rightharpoonup> 'n cell) list)" where
  "stats_update_dashboard team_stats_df selected_teams selected_stats =
     bind_err (stats_filter team_stats_df selected_teams) (\<lambda>filtered_df.
       bind_err (if selection selected_stats \<noteq> []
                 then bar_figure ''Comparison of Selected Stats'' filtered_df
                        (selection selected_stats)
                 else Inr placeholder_figure) (\<lambda>figure.
         Inr (figure, to_dict_records filtered_df)))"

subsection \<open>fieldgoalpercentage.py\<close>

text \<open>\<open>filtered_df[filtered_df["Conference"] == selected_conference]\<close>\<close>

definition filter_eq :: "'n frame \<Rightarrow> string \<Rightarrow> string \<Rightarrow> error + 'n frame" where
  "filter_eq df col v =
     (case index_of col (columns df) of
        None \<Rightarrow> Inl (KeyError col)
      | Some i \<Rightarrow> Inr (df\<lparr>rows := filter (\<lambda>r. r ! i = Str v) (rows df)\<rparr>))"

definition fgp_filter :: "'n frame \<Rightarrow> string option \<Rightarrow> error + 'n frame" where
  "fgp_filter team_stats_df selected_conference =
     (if selection selected_conference \<noteq> [] \<and> selection selected_conference \<noteq> ''All''
      then filter_eq team_stats_df ''Conference'' (selection selected_conference)
      else Inr team_stats_df)"

definition fgp_update_dashboard ::
  "'n frame \<Rightarrow> string option \<Rightarrow> string list option
     \<Rightarrow> error + ('n figure \<times> (string \<rightharpoonup> 'n cell) list)" where
  "fgp_update_dashboard team_stats_df selected_conference selected_stats =
     bind_err (fgp_filter team_stats_df selected_conference) (\<lambda>filtered_df.
       bind_err (if selection selected_stats \<noteq> []
                 then bar_figure
                        (''Comparison of Selected Stats in '' @
                           (if selection selected_conference \<noteq> []
                            then selection selected_conference else ''All Conferences''))
                        filtered_df (selection selected_stats)
                 else Inr placeholder_figure) (\<lambda>figure.
         Inr (figure, to_dict_records filtered_df)))"

subsection \<open>app.py\<close>

text \<open>\<open>update_graph\<close> has no row filter and skips the selected names that are no column.\<close>

definition app_update_graph :: "'n frame \<Rightarrow> string list option \<Rightarrow> error + 'n figure" where
  "app_update_graph df selected_stats =
     (if selection selected_stats = [] then Inr placeholder_figure
      else bar_figure ''Comparison of Selected Stats'' df
             (filter (\<lambda>stat. stat \<in> set (columns df)) (selection selected_stats)))"

section \<open>Sample inputs\<close>

text \<open>Pages, tables and a parser on which the properties below are evaluated.\<close>

definition sample_hrow :: node where
  "sample_hrow = Tag ''tr'' [] [Tag ''th'' [] [NavigableString ''Rank''],
                               Tag ''th'' [] [NavigableString '' Team '']]"

definition sample_drows :: "node list" where
  "sample_drows =
     [Tag ''tr'' [] [Tag ''td'' [] [NavigableString ''1''],
                     Tag ''td'' [] [Tag ''a'' [''school''] [NavigableString ''Duke '']]],
      Tag ''tr'' [] [Tag ''td'' [] [NavigableString ''2''],
                     Tag ''td'' [] [NavigableString ''UNC'']]]"

definition sample_table :: node where
  "sample_table = Tag ''table'' [] (sample_hrow # sample_drows)"

definition sample_page :: node where
  "sample_page = Tag ''[document]'' [] [Tag ''h1'' [] [NavigableString ''NET''], sample_table]"

definition sample_stats :: "nat frame" where
  "sample_stats =
     \<lparr>columns = [''Rank'', ''Team'', ''PPG''],
      rows = [[Str ''1'', Str ''A'', Num 80], [Str ''2'', Str ''B'', Null]]\<rparr>"

definition ragged_table :: node where
  "ragged_table =
     Tag ''table'' []
       [Tag ''tr'' [] [Tag ''th'' [] [NavigableString ''Rank''],
                       Tag ''th'' [] [NavigableString ''Team'']],
        Tag ''tr'' [] [Tag ''td'' [] [NavigableString ''1''],
                       Tag ''td'' [] [NavigableString ''Duke''],
                       Tag ''td'' [] [NavigableString ''ACC'']]]"

definition ragged_page :: node where
  "ragged_page = Tag ''[document]'' [] [ragged_table]"

definition short_table :: node where
  "short_table =
     Tag ''table'' []
       [Tag ''tr'' [] [Tag ''th'' [] [NavigableString ''Rank''],
                       Tag ''th'' [] [NavigableString ''Team'']],
        Tag ''tr'' [] [Tag ''td'' [] [NavigableString ''1''],
                       Tag ''td'' [] [NavigableString ''Duke'']],
        Tag ''tr'' [] [Tag ''td'' [] [NavigableString ''2'']]]"

definition short_page :: node where
  "short_page = Tag ''[document]'' [] [short_table]"

definition no_table_page :: node where
  "no_table_page = Tag ''[document]'' [] [Tag ''p'' [] [NavigableString ''Service unavailable'']]"

definition one_cell_table :: node where
  "one_cell_table =
     Tag ''table'' []
       [Tag ''tr'' [] [Tag ''th'' [] [NavigableString ''Rank''],
                       Tag ''th'' [] [NavigableString ''Team''],
                       Tag ''th'' [] [NavigableString ''PPG'']],
        Tag ''tr'' [] [Tag ''td'' [] [NavigableString ''1''],
                       Tag ''td'' [] [Tag ''a'' [''school''] [NavigableString ''Duke'']],
                       Tag ''td'' [] [NavigableString ''80.5'']],
        Tag ''tr'' [] [Tag ''td'' [] [NavigableString ''Updated daily'']]]"

definition one_cell_page :: node where
  "one_cell_page = Tag ''[document]'' [] [one_cell_table]"

definition sample_rankings :: "nat frame" where
  "sample_rankings =
     \<lparr>columns = [''Rank'', ''Team'', ''Record''],
      rows = [[Num 5, Str ''B'', Str ''20-3''], [Num 6, Str ''A'', Str ''19-4''],
              [Num 9, Str ''Z'', Str ''10-10'']]\<rparr>"

definition sample_parse :: "string \<Rightarrow> nat option" where
  "sample_parse s = (if s = ''80'' then Some 80 else if s = ''7'' then Some 7 else None)"

definition sample_conf_stats :: "nat frame" where
  "sample_conf_stats =
     \<lparr>columns = [''Rank'', ''Team'', ''PPG'', ''Conference''],
      rows = [[Str ''1'', Str ''A'', Num 80, Str ''ACC''],
              [Str ''2'', Str ''B'', Null, Str ''SEC''],
              [Str ''3'', Str ''C'', Num 7, Str ''ACC'']]\<rparr>"

definition sample_text_stats :: "nat frame" where
  "sample_text_stats =
     \<lparr>columns = [''Rank'', ''Team'', ''PPG'', ''Conference''],
      rows = [[Str ''1'', Str ''A'', Str ''80'', Str ''ACC''],
              [Str ''2'', Str ''B'', Str ''n/a'', Str ''SEC'']]\<rparr>"

definition header_only_stats :: "nat frame" where
  "header_only_stats = \<lparr>columns = [''Rank'', ''Team'', ''PPG''], rows = []\<rparr>"

section \<open>Properties\<close>

subsection \<open>Auxiliary facts\<close>

lemma bind_err_simps [simp]:
  "bind_err (Inl e) f = Inl e"
  "bind_err (Inr v) f = f v"
  by (simp_all add: bind_err_def)

lemma width_uniform_if:
  "\<forall>r\<in>set data. length r = n \<Longrightarrow> width data = (if data = [] then 0 else n)"
  unfolding width_def by (induction data) (auto simp: max_def split: if_splits)

lemma DataFrame_uniform:
  assumes "\<forall>r\<in>set data. length r = length cols"
  shows "DataFrame data cols = Inr \<lparr>columns = cols, rows = map (map Str) data\<rparr>"
proof (cases "data = []")
  case True
  then show ?thesis by (simp add: DataFrame_def)
next
  case False
  with assms have w: "width data = length cols"
    using width_uniform_if [of data "length cols"] by simp
  have "map (pad_row (length cols)) data = map (map Str) data"
    using assms by (simp add: pad_row_def)
  with False w show ?thesis by (simp add: DataFrame_def)
qed

lemmas sample_eval =
  find_first_def find_all_def DataFrame_def rankings_data_def body_rows_def headers_of_def
  cell_text_def strip_def isspace_def width_def pad_row_def

lemma index_of_None: "index_of x xs = None \<longleftrightarrow> x \<notin> set xs"
  by (induction xs) auto

lemma index_of_Some: "index_of x xs = Some i \<Longrightarrow> i < length xs \<and> xs ! i = x"
  by (induction xs arbitrary: i) (auto split: if_splits)

lemma index_of_mem: "x \<in> set xs \<Longrightarrow> \<exists>i. index_of x xs = Some i"
  using index_of_None [of x xs] by (cases "index_of x xs") auto

subsection \<open>Extraction of a well-formed table\<close>

text \<open>
  Claim C1. Take a page whose first table is well formed: its rows are a header row
  holding all the \<open>N\<close> header cells of the table, followed by \<open>M\<close> data rows of exactly
  \<open>N\<close> data cells each (a data row is a row that has data cells), and let the request
  succeed. Then \<open>fetch_ncaa_net_rankings\<close> of rankings.py and of app.py return the same
  table: \<open>N\<close> columns, labelled by the header cells in document order, and \<open>M\<close> rows,
  one per data row, each with \<open>N\<close> values.
\<close>

theorem extract_well_formed:
  assumes tbl: "find_first (is_named ''table'') soup = Some table"
      and trs: "find_all ''tr'' table = hrow # drows"
      and ths: "find_all ''th'' table = find_all ''th'' hrow"
      and N: "length (find_all ''th'' hrow) = N"
      and M: "length drows = M"
      and cells: "\<forall>r\<in>set drows. find_all ''td'' r \<noteq> [] \<and> length (find_all ''td'' r) = N"
      and ok: "\<not> (400 \<le> st \<and> st < 600)"
  shows "\<exists>df :: 'n frame.
           rankings_fetch_ncaa_net_rankings (Response st soup) = (df, []) \<and>
           app_fetch_ncaa_net_rankings (Response st' soup) = Inr df \<and>
           length (columns df) = N \<and> length (rows df) = M \<and> rectangular df \<and>
           columns df = map cell_text (find_all ''th'' hrow) \<and>
           rows df = map (\<lambda>r. map (\<lambda>c. Str (cell_text c)) (find_all ''td'' r)) drows"
proof -
  define df :: "'n frame" where
    "df = \<lparr>columns = map cell_text (find_all ''th'' hrow),
           rows = map (\<lambda>r. map (\<lambda>c. Str (cell_text c)) (find_all ''td'' r)) drows\<rparr>"
  have hd: "headers_of table = map cell_text (find_all ''th'' hrow)"
    by (simp add: headers_of_def ths)
  have body: "body_rows table = drows"
    by (simp add: body_rows_def trs)
  have keep: "filter (\<lambda>cells. cells \<noteq> []) (map (find_all ''td'') drows) = map (find_all ''td'') drows"
    using cells by (simp add: filter_id_conv)
  have rd: "rankings_data table = map (\<lambda>r. map cell_text (find_all ''td'' r)) drows"
    by (simp add: rankings_data_def body keep)
  have ad: "app_data table = map (\<lambda>r. map cell_text (find_all ''td'' r)) drows"
    by (simp add: app_data_def body)
  have uni: "\<forall>r\<in>set (map (\<lambda>r. map cell_text (find_all ''td'' r)) drows).
               length r = length (headers_of table)"
    using cells N by (simp add: hd)
  have frame: "DataFrame (map (\<lambda>r. map cell_text (find_all ''td'' r)) drows) (headers_of table)
                 = Inr df"
    using DataFrame_uniform [OF uni] by (simp add: df_def hd comp_def)
  have r: "rankings_try (Response st soup) = Inr df"
    using ok by (simp add: rankings_try_def raise_for_status_def tbl rd frame)
  have a: "app_fetch_ncaa_net_rankings (Response st' soup) = Inr df"
    by (simp add: app_fetch_ncaa_net_rankings_def tbl ad frame)
  have rect: "rectangular df"
    using cells N by (simp add: rectangular_def df_def)
  have "rankings_fetch_ncaa_net_rankings (Response st soup) = (df, [])"
    using r by (simp add: rankings_fetch_ncaa_net_rankings_def)
  moreover have "length (columns df) = N" "length (rows df) = M"
    using N M by (simp_all add: df_def)
  moreover have "columns df = map cell_text (find_all ''th'' hrow)"
    "rows df = map (\<lambda>r. map (\<lambda>c. Str (cell_text c)) (find_all ''td'' r)) drows"
    by (simp_all add: df_def)
  ultimately show ?thesis using a rect by blast
qed

theorem extract_well_formed_witness:
  "find_first (is_named ''table'') sample_page = Some sample_table \<and>
   find_all ''tr'' sample_table = sample_hrow # sample_drows \<and>
   find_all ''th'' sample_table = find_all ''th'' sample_hrow \<and>
   length (find_all ''th'' sample_hrow) = 2 \<and> length sample_drows = 2 \<and>
   list_all (\<lambda>r. find_all ''td'' r \<noteq> [] \<and> length (find_all ''td'' r) = 2) sample_drows \<and>
   \<not> (400 \<le> (200::int) \<and> (200::int) < 600) \<and>
   (\<exists>df :: nat frame.
      rankings_fetch_ncaa_net_rankings (Response 200 sample_page) = (df, []) \<and>
      app_fetch_ncaa_net_rankings (Response 200 sample_page) = Inr df \<and>
      length (columns df) = 2 \<and> length (rows df) = 2 \<and> rectangular df \<and>
      columns df = map cell_text (find_all ''th'' sample_hrow) \<and>
      rows df = map (\<lambda>r. map (\<lambda>c. Str (cell_text c)) (find_all ''td'' r)) sample_drows)"
proof -
  have h1: "find_first (is_named ''table'') sample_page = Some sample_table"
    by (simp add: find_first_def sample_page_def sample_table_def)
  have h2: "find_all ''tr'' sample_table = sample_hrow # sample_drows"
    by (simp add: find_all_def sample_table_def sample_hrow_def sample_drows_def)
  have h3: "find_all ''th'' sample_table = find_all ''th'' sample_hrow"
    by (simp add: find_all_def sample_table_def sample_hrow_def sample_drows_def)
  have h4: "length (find_all ''th'' sample_hrow) = 2"
    by (simp add: find_all_def sample_hrow_def)
  have h5: "length sample_drows = 2"
    by (simp add: sample_drows_def)
  have h6: "\<forall>r\<in>set sample_drows. find_all ''td'' r \<noteq> [] \<and> length (find_all ''td'' r) = 2"
    by (simp add: find_all_def sample_drows_def)
  have h7: "\<not> (400 \<le> (200::int) \<and> (200::int) < 600)"
    by simp
  from extract_well_formed [OF h1 h2 h3 h4 h5 h6 h7, where ?'n = nat and st' = 200]
  show ?thesis using h1 h2 h3 h4 h5 h6 h7 unfolding list_all_iff by blast
qed

subsection \<open>Merging with an empty table\<close>

text \<open>
  Claim C9. When the statistics table or the rankings table is empty,
  \<open>merge_stats_and_rankings\<close> returns the statistics table as it is: same columns, same
  rows, hence the same number of rows.
\<close>

theorem merge_noop_when_empty:
  "empty stats_df \<or> empty rankings_df \<Longrightarrow>
     merge_stats_and_rankings stats_df rankings_df = Inr stats_df"
  by (auto simp: merge_stats_and_rankings_def)

theorem merge_noop_when_empty_witness:
  "(empty sample_stats \<or> empty (empty_DataFrame :: nat frame)) \<and>
   merge_stats_and_rankings sample_stats empty_DataFrame = Inr sample_stats"
  using merge_noop_when_empty [of sample_stats empty_DataFrame]
  by (simp add: empty_def empty_DataFrame_def)


subsection \<open>Failures of the data acquisition\<close>

lemma rankings_dashboard_failed:
  assumes "rankings_try r = (Inl e :: error + 'n frame)"
  shows "rankings_fetch_ncaa_net_rankings r = (empty_DataFrame :: 'n frame, [Error_while_fetching_data e])"
    and "rankings_dashboard r =
           (\<lparr>lay_title = ''NCAA Men's Basketball NET Rankings'',
              lay_columns = [(''Rank'', ''Rank''), (''Team'', ''Team''),
                             (''Conference'', ''Conference''), (''Overall'', ''Overall'')],
              lay_data = ([] :: (string \<rightharpoonup> 'n cell) list), lay_page_size = 50\<rparr>,
            [Error_while_fetching_data e, No_data_was_retrieved])"
  using assms
  by (simp_all add: rankings_fetch_ncaa_net_rankings_def rankings_dashboard_def empty_def
      empty_DataFrame_def rankings_placeholder_def to_dict_records_def)

text \<open>
  Claim C2, as the code has it. When the request raises, when the status is one that
  \<open>raise_for_status\<close> rejects (400 to 599), or when the page has no table, the fetch
  function of rankings.py returns the empty table and prints the error, nothing
  propagates, and the dashboard is built from the placeholder: its four columns and no
  row.
\<close>

theorem fetch_failure_gives_placeholder:
  assumes "r = RequestFailed \<or>
           (\<exists>st soup. r = Response st soup \<and>
              ((400 \<le> st \<and> st < 600) \<or> find_first (is_named ''table'') soup = None))"
  shows "\<exists>e. rankings_fetch_ncaa_net_rankings r =
               (empty_DataFrame :: 'n frame, [Error_while_fetching_data e]) \<and>
             rankings_dashboard r =
               (\<lparr>lay_title = ''NCAA Men's Basketball NET Rankings'',
                  lay_columns = [(''Rank'', ''Rank''), (''Team'', ''Team''),
                                 (''Conference'', ''Conference''), (''Overall'', ''Overall'')],
                  lay_data = ([] :: (string \<rightharpoonup> 'n cell) list), lay_page_size = 50\<rparr>,
                [Error_while_fetching_data e, No_data_was_retrieved])"
proof -
  have "\<exists>e. rankings_try r = (Inl e :: error + 'n frame)"
    using assms by (auto simp: rankings_try_def raise_for_status_def)
  then obtain e where "rankings_try r = (Inl e :: error + 'n frame)" ..
  from rankings_dashboard_failed [OF this] show ?thesis by blast
qed

theorem fetch_failure_gives_placeholder_witness:
  "rankings_fetch_ncaa_net_rankings (Response 500 sample_page) =
     (empty_DataFrame :: nat frame, [Error_while_fetching_data HTTPError]) \<and>
   lay_data (fst (rankings_dashboard (Response 500 sample_page) :: nat layout \<times> diag list)) = [] \<and>
   rankings_fetch_ncaa_net_rankings (Response 200 no_table_page) =
     (empty_DataFrame :: nat frame, [Error_while_fetching_data NoTableFound]) \<and>
   lay_data (fst (rankings_dashboard (Response 200 no_table_page) :: nat layout \<times> diag list)) = [] \<and>
   rankings_fetch_ncaa_net_rankings RequestFailed =
     (empty_DataFrame :: nat frame, [Error_while_fetching_data RequestException]) \<and>
   lay_data (fst (rankings_dashboard RequestFailed :: nat layout \<times> diag list)) = []"
proof -
  have none: "find_first (is_named ''table'') no_table_page = None"
    by (simp add: find_first_def no_table_page_def)
  have a: "Response 500 sample_page = RequestFailed \<or>
           (\<exists>st soup. Response 500 sample_page = Response st soup \<and>
              ((400 \<le> st \<and> st < 600) \<or> find_first (is_named ''table'') soup = None))"
    by simp
  have b: "Response 200 no_table_page = RequestFailed \<or>
           (\<exists>st soup. Response 200 no_table_page = Response st soup \<and>
              ((400 \<le> st \<and> st < 600) \<or> find_first (is_named ''table'') soup = None))"
    using none by simp
  have c: "RequestFailed = RequestFailed \<or>
           (\<exists>st soup. RequestFailed = Response st soup \<and>
              ((400 \<le> st \<and> st < 600) \<or> find_first (is_named ''table'') soup = None))"
    by simp
  from fetch_failure_gives_placeholder [OF a, where ?'n = nat]
       fetch_failure_gives_placeholder [OF b, where ?'n = nat]
       fetch_failure_gives_placeholder [OF c, where ?'n = nat]
  show ?thesis
    by (auto simp: rankings_fetch_ncaa_net_rankings_def rankings_try_def raise_for_status_def none)
qed

text \<open>
  The claim speaks of every status outside 200 to 299. A status such as 300 is not
  rejected by \<open>raise_for_status\<close>: the table of the page is parsed and shown.
\<close>

theorem status_300_counterexample:
  "\<not> (200 \<le> (300::int) \<and> (300::int) < 300) \<and>
   rankings_fetch_ncaa_net_rankings (Response 300 sample_page) =
     (\<lparr>columns = [''Rank'', ''Team''],
       rows = [[Str ''1'', Str ''Duke''], [Str ''2'', Str ''UNC'']]\<rparr> :: nat frame, []) \<and>
   length (lay_data (fst (rankings_dashboard (Response 300 sample_page)
                            :: nat layout \<times> diag list))) = 2"
  by (simp add: rankings_dashboard_def empty_def to_dict_records_def
      rankings_fetch_ncaa_net_rankings_def rankings_try_def raise_for_status_def
      find_first_def find_all_def sample_page_def sample_table_def sample_hrow_def sample_drows_def
      DataFrame_def rankings_data_def body_rows_def headers_of_def cell_text_def strip_def
      isspace_def width_def pad_row_def)


subsection \<open>Rows whose cell count differs from the header count\<close>

lemma width_le: "r \<in> set data \<Longrightarrow> length r \<le> width data"
  unfolding width_def by (induction data) auto

lemma width_attained: "data \<noteq> [] \<Longrightarrow> \<exists>r\<in>set data. length r = width data"
proof (induction data)
  case Nil
  then show ?case by simp
next
  case (Cons a data)
  show ?case
  proof (cases "data = []")
    case True
    then show ?thesis by (simp add: width_def)
  next
    case False
    with Cons.IH obtain r where "r \<in> set data" "length r = width data" by blast
    then show ?thesis by (auto simp: width_def max_def)
  qed
qed

lemma width_eq_iff:
  assumes "data \<noteq> []"
  shows "width data = n \<longleftrightarrow> (\<forall>r\<in>set data. length r \<le> n) \<and> (\<exists>r\<in>set data. length r = n)"
proof
  assume "width data = n"
  then show "(\<forall>r\<in>set data. length r \<le> n) \<and> (\<exists>r\<in>set data. length r = n)"
    using width_le [of _ data] width_attained [OF assms] by auto
next
  assume h: "(\<forall>r\<in>set data. length r \<le> n) \<and> (\<exists>r\<in>set data. length r = n)"
  from width_attained [OF assms] obtain r where r: "r \<in> set data" "length r = width data"
    by blast
  with h have "width data \<le> n" by auto
  moreover from h obtain r' where "r' \<in> set data" "length r' = n" by blast
  then have "n \<le> width data" using width_le by blast
  ultimately show "width data = n" by simp
qed

text \<open>
  Claim C8, as the code has it. Let the page have a table with at least one data row and
  let the request succeed. If no data row has more cells than the header and one has
  exactly as many, the table is built with the header labels as columns, each row
  filled with nulls after its last cell. If a data row has more cells than the header,
  or all have fewer, the frame constructor rejects the data: the fetch function prints
  the error and returns the empty table, without columns.
\<close>

theorem ragged_rows_padded_or_rejected:
  assumes tbl: "find_first (is_named ''table'') soup = Some table"
      and ok: "\<not> (400 \<le> st \<and> st < 600)"
      and data: "rankings_data table \<noteq> []"
  shows "((\<forall>r\<in>set (rankings_data table). length r \<le> length (headers_of table)) \<and>
          (\<exists>r\<in>set (rankings_data table). length r = length (headers_of table)) \<longrightarrow>
            rankings_fetch_ncaa_net_rankings (Response st soup) =
              (\<lparr>columns = headers_of table,
                rows = map (\<lambda>r. map Str r @ replicate (length (headers_of table) - length r) Null)
                         (rankings_data table)\<rparr> :: 'n frame, [])) \<and>
         ((\<exists>r\<in>set (rankings_data table). length (headers_of table) < length r) \<or>
          (\<forall>r\<in>set (rankings_data table). length r < length (headers_of table)) \<longrightarrow>
            rankings_fetch_ncaa_net_rankings (Response st soup) =
              (empty_DataFrame :: 'n frame, [Error_while_fetching_data ShapeMismatch]))"
proof (intro conjI impI)
  assume "(\<forall>r\<in>set (rankings_data table). length r \<le> length (headers_of table)) \<and>
          (\<exists>r\<in>set (rankings_data table). length r = length (headers_of table))"
  then have w: "width (rankings_data table) = length (headers_of table)"
    using width_eq_iff [OF data] by blast
  have "rankings_try (Response st soup) =
          (Inr \<lparr>columns = headers_of table,
                rows = map (\<lambda>r. map Str r @ replicate (length (headers_of table) - length r) Null)
                         (rankings_data table)\<rparr> :: error + 'n frame)"
    using ok data w
    by (simp add: rankings_try_def raise_for_status_def tbl DataFrame_def pad_row_def)
  then show "rankings_fetch_ncaa_net_rankings (Response st soup) =
              (\<lparr>columns = headers_of table,
                rows = map (\<lambda>r. map Str r @ replicate (length (headers_of table) - length r) Null)
                         (rankings_data table)\<rparr> :: 'n frame, [])"
    by (simp add: rankings_fetch_ncaa_net_rankings_def)
next
  assume "(\<exists>r\<in>set (rankings_data table). length (headers_of table) < length r) \<or>
          (\<forall>r\<in>set (rankings_data table). length r < length (headers_of table))"
  then have w: "width (rankings_data table) \<noteq> length (headers_of table)"
    using width_eq_iff [OF data, of "length (headers_of table)"] by fastforce
  have "rankings_try (Response st soup) = (Inl ShapeMismatch :: error + 'n frame)"
    using ok data w
    by (simp add: rankings_try_def raise_for_status_def tbl DataFrame_def)
  then show "rankings_fetch_ncaa_net_rankings (Response st soup) =
              (empty_DataFrame :: 'n frame, [Error_while_fetching_data ShapeMismatch])"
    by (simp add: rankings_fetch_ncaa_net_rankings_def)
qed

theorem ragged_rows_padded_or_rejected_witness:
  "rankings_fetch_ncaa_net_rankings (Response 200 short_page) =
     (\<lparr>columns = [''Rank'', ''Team''],
       rows = [[Str ''1'', Str ''Duke''], [Str ''2'', Null]]\<rparr> :: nat frame, []) \<and>
   rankings_fetch_ncaa_net_rankings (Response 200 ragged_page) =
     (empty_DataFrame :: nat frame, [Error_while_fetching_data ShapeMismatch])"
proof -
  have t1: "find_first (is_named ''table'') short_page = Some short_table"
    by (simp add: find_first_def short_page_def short_table_def)
  have t2: "find_first (is_named ''table'') ragged_page = Some ragged_table"
    by (simp add: find_first_def ragged_page_def ragged_table_def)
  have ok: "\<not> (400 \<le> (200::int) \<and> (200::int) < 600)" by simp
  have d1: "rankings_data short_table = [[''1'', ''Duke''], [''2'']]"
    by (simp add: sample_eval short_table_def)
  have d2: "rankings_data ragged_table = [[''1'', ''Duke'', ''ACC'']]"
    by (simp add: sample_eval ragged_table_def)
  have h1: "headers_of short_table = [''Rank'', ''Team'']"
    by (simp add: sample_eval short_table_def)
  have h2: "headers_of ragged_table = [''Rank'', ''Team'']"
    by (simp add: sample_eval ragged_table_def)
  have n1: "rankings_data short_table \<noteq> []" by (simp add: d1)
  have n2: "rankings_data ragged_table \<noteq> []" by (simp add: d2)
  from ragged_rows_padded_or_rejected [OF t1 ok n1, where ?'n = nat]
       ragged_rows_padded_or_rejected [OF t2 ok n2, where ?'n = nat]
  show ?thesis by (simp add: d1 d2 h1 h2)
qed

text \<open>
  The claim says that the table is still built in every such case. A row of three cells
  under two header cells makes the fetch function return the empty table.
\<close>

theorem extra_cell_counterexample:
  "map length (rankings_data ragged_table) = [3] \<and>
   headers_of ragged_table = [''Rank'', ''Team''] \<and>
   find_first (is_named ''table'') ragged_page = Some ragged_table \<and>
   rankings_fetch_ncaa_net_rankings (Response 200 ragged_page) =
     (\<lparr>columns = [], rows = []\<rparr> :: nat frame, [Error_while_fetching_data ShapeMismatch])"
  by (simp add: sample_eval ragged_page_def ragged_table_def rankings_fetch_ncaa_net_rankings_def
      rankings_try_def raise_for_status_def empty_DataFrame_def)


subsection \<open>The conference column after the merge\<close>

lemma ensure_conference_columns: "''Conference'' \<in> set (columns (ensure_conference df))"
  by (simp add: ensure_conference_def setitem_def index_of_None [THEN iffD2])

lemma ensure_conference_default:
  assumes "''Conference'' \<notin> set (columns df)"
  shows "columns (ensure_conference df) = columns df @ [''Conference'']"
    and "rows (ensure_conference df) = map (\<lambda>r. r @ [Str ''Unknown Conference'']) (rows df)"
proof -
  have n: "index_of ''Conference'' (columns df) = None"
    using assms by (simp add: index_of_None)
  show "columns (ensure_conference df) = columns df @ [''Conference'']"
    using assms n by (simp add: ensure_conference_def setitem_def)
  have "map (\<lambda>(r, v). r @ [v]) (zip xs (replicate (length xs) c)) = map (\<lambda>r. r @ [c]) xs"
    for xs :: "'a cell list list" and c
    by (induction xs) auto
  then show "rows (ensure_conference df) = map (\<lambda>r. r @ [Str ''Unknown Conference'']) (rows df)"
    using assms n by (simp add: ensure_conference_def setitem_def)
qed

lemma select_team_rank_columns:
  "select_team_rank df = Inr right \<Longrightarrow> columns right = [''Team'', ''Rank'']"
  by (auto simp: select_team_rank_def bind_err_def split: sum.splits)

lemma pd_merge_left_conference:
  assumes "pd_merge_left ''Team'' left right = Inr m" and "columns right = [''Team'', ''Rank'']"
  shows "''Conference'' \<in> set (columns m) \<longleftrightarrow> ''Conference'' \<in> set (columns left)"
proof -
  from assms obtain i where i: "index_of ''Team'' (columns left) = Some i"
    by (auto simp: pd_merge_left_def split: option.splits)
  have j: "index_of ''Team'' (columns right) = Some 0"
    by (simp add: assms(2))
  have "columns m =
          map (\<lambda>c. if c \<noteq> ''Team'' \<and> c \<in> set (columns left) \<and> c = ''Rank'' then c @ ''_x'' else c)
            (columns left) @
          [if ''Rank'' \<in> set (columns left) then ''Rank_y'' else ''Rank'']"
    using assms(1) by (auto simp: pd_merge_left_def i j assms(2) remove_nth_def Let_def)
  then show ?thesis by (auto simp: image_iff)
qed

text \<open>
  Claim C7, as the code has it. When both tables are non-empty and the merge returns a
  table, that table has a \<open>Conference\<close> column; when the statistics table had none,
  the column is the last one and holds \<open>Unknown Conference\<close> in every row. When one of
  the tables is empty, the statistics table is returned as it is, with or without the
  column.
\<close>

theorem merge_ensures_conference:
  "(\<not> empty stats_df \<and> \<not> empty rankings_df \<and>
    merge_stats_and_rankings stats_df rankings_df = Inr merged \<longrightarrow>
      ''Conference'' \<in> set (columns merged) \<and>
      (''Conference'' \<notin> set (columns stats_df) \<longrightarrow>
         last (columns merged) = ''Conference'' \<and>
         (\<forall>r\<in>set (rows merged). last r = Str ''Unknown Conference''))) \<and>
   (empty stats_df \<or> empty rankings_df \<longrightarrow>
      merge_stats_and_rankings stats_df rankings_df = Inr stats_df)"
proof (intro conjI impI)
  assume a: "\<not> empty stats_df \<and> \<not> empty rankings_df \<and>
             merge_stats_and_rankings stats_df rankings_df = Inr merged"
  then obtain right m where
    r: "select_team_rank rankings_df = Inr right" and
    m: "pd_merge_left ''Team'' stats_df right = Inr m" and
    e: "merged = ensure_conference m"
    by (auto simp: merge_stats_and_rankings_def bind_err_def split: sum.splits)
  have c: "''Conference'' \<in> set (columns m) \<longleftrightarrow> ''Conference'' \<in> set (columns stats_df)"
    using pd_merge_left_conference [OF m select_team_rank_columns [OF r]] .
  show "''Conference'' \<in> set (columns merged)"
    by (simp add: e ensure_conference_columns)
  assume "''Conference'' \<notin> set (columns stats_df)"
  with c have n: "''Conference'' \<notin> set (columns m)" by simp
  show "last (columns merged) = ''Conference''"
    using ensure_conference_default(1) [OF n] by (simp add: e)
  show "\<forall>r\<in>set (rows merged). last r = Str ''Unknown Conference''"
    using ensure_conference_default(2) [OF n] by (auto simp: e)
next
  assume "empty stats_df \<or> empty rankings_df"
  then show "merge_stats_and_rankings stats_df rankings_df = Inr stats_df"
    by (auto simp: merge_stats_and_rankings_def)
qed

theorem merge_ensures_conference_witness:
  "\<not> empty sample_stats \<and> \<not> empty sample_rankings \<and>
   merge_stats_and_rankings sample_stats sample_rankings =
     Inr \<lparr>columns = [''Rank_x'', ''Team'', ''PPG'', ''Rank_y'', ''Conference''],
          rows = [[Str ''1'', Str ''A'', Num 80, Num 6, Str ''Unknown Conference''],
                  [Str ''2'', Str ''B'', Null, Num 5, Str ''Unknown Conference'']]\<rparr> \<and>
   ''Conference'' \<in> set [''Rank_x'', ''Team'', ''PPG'', ''Rank_y'', ''Conference''] \<and>
   empty header_only_stats \<and>
   merge_stats_and_rankings header_only_stats sample_rankings = Inr header_only_stats"
proof -
  have a: "\<not> empty sample_stats" by (simp add: empty_def sample_stats_def)
  have b: "\<not> empty sample_rankings" by (simp add: empty_def sample_rankings_def)
  have c: "merge_stats_and_rankings sample_stats sample_rankings =
     Inr \<lparr>columns = [''Rank_x'', ''Team'', ''PPG'', ''Rank_y'', ''Conference''],
          rows = [[Str ''1'', Str ''A'', Num 80, Num 6, Str ''Unknown Conference''],
                  [Str ''2'', Str ''B'', Null, Num 5, Str ''Unknown Conference'']]\<rparr>"
    by (simp add: merge_stats_and_rankings_def empty_def sample_stats_def sample_rankings_def
        select_team_rank_def getitem_def pd_merge_left_def remove_nth_def ensure_conference_def
        setitem_def Let_def bind_err_def)
  have d: "empty header_only_stats"
    by (simp add: empty_def header_only_stats_def)
  from merge_ensures_conference [of sample_stats sample_rankings]
       merge_ensures_conference [of header_only_stats sample_rankings]
       a b c d
  show ?thesis by simp
qed

text \<open>
  The claim says: for every pair of input tables. With an empty statistics table, which
  is what a failed fetch returns, the merge returns it unchanged, without the column.
\<close>

theorem merge_empty_primary_counterexample:
  "merge_stats_and_rankings (empty_DataFrame :: nat frame) sample_rankings = Inr empty_DataFrame \<and>
   ''Conference'' \<notin> set (columns (empty_DataFrame :: nat frame))"
  by (simp add: merge_stats_and_rankings_def empty_def empty_DataFrame_def)


subsection \<open>Extraction of the team name\<close>

text \<open>
  For a row with two cells or more the team name is the text of the first \<open>a\<close> element
  of class \<open>school\<close> inside the second cell, and \<open>Unknown Team\<close> when there is none.
\<close>

lemma team_name_extraction:
  assumes "2 \<le> length cells"
  shows "\<exists>cols. stats_row cells = Inr cols \<and> length cols = length cells \<and>
           cols ! 1 = (case find_first (\<lambda>k. is_named ''a'' k \<and> has_class ''school'' k) (cells ! 1) of
                         None \<Rightarrow> ''Unknown Team'' | Some team_cell \<Rightarrow> cell_text team_cell)"
  using assms by (simp add: stats_row_def team_name_def)

text \<open>
  Claim C10 says that the extraction of the team name never makes the parse fail. A row
  with a single cell passes the test \<open>if cells\<close>, and \<open>cells[1]\<close> raises
  \<open>IndexError\<close>: the fetch functions of stats.py and fieldgoalpercentage.py then give up
  the whole table, also the rows that were read before.
\<close>

theorem one_cell_row_fails:
  "find_all ''td'' (body_rows one_cell_table ! 1) = [Tag ''td'' [] [NavigableString ''Updated daily'']] \<and>
   stats_fetch_ncaa_team_stats p (Response 200 one_cell_page) =
     (empty_DataFrame, [Error_while_fetching_data IndexError]) \<and>
   fgp_fetch_ncaa_team_stats p (Response 200 one_cell_page) =
     (empty_DataFrame, [Error_while_fetching_data IndexError])"
  by (simp add: stats_fetch_ncaa_team_stats_def fgp_fetch_ncaa_team_stats_def stats_try_def
      fgp_try_def raise_for_status_def find_first_def find_all_def body_rows_def
      one_cell_page_def one_cell_table_def stats_row_def bind_err_def)


subsection \<open>Numeric coercion\<close>

lemma to_numeric_value_coerce:
  "\<exists>v. to_numeric_value errors_coerce p c = Inr v \<and> (\<forall>s. v \<noteq> Str s) \<and>
       to_numeric_value errors_coerce p v = Inr v"
  by (cases c) (auto split: option.splits)

lemma to_numeric_coerce:
  "\<exists>vs. to_numeric errors_coerce p series = Inr vs \<and> length vs = length series \<and>
        (\<forall>v\<in>set vs. \<forall>s. v \<noteq> Str s) \<and> to_numeric errors_coerce p vs = Inr vs"
proof (induction series)
  case Nil
  then show ?case by simp
next
  case (Cons c series)
  from to_numeric_value_coerce [of p c] obtain v where
    v: "to_numeric_value errors_coerce p c = Inr v" "\<forall>s. v \<noteq> Str s"
       "to_numeric_value errors_coerce p v = Inr v" by blast
  from Cons.IH obtain vs where
    vs: "to_numeric errors_coerce p series = Inr vs" "length vs = length series"
        "\<forall>v\<in>set vs. \<forall>s. v \<noteq> Str s" "to_numeric errors_coerce p vs = Inr vs" by blast
  show ?case using v vs by simp
qed


lemma coerced_idem: "coerced p (coerced p c) = coerced p c"
  by (cases c) (auto simp: coerced_def split: option.splits)

lemma coerced_not_text: "coerced p c \<noteq> Str s"
  by (cases c) (auto simp: coerced_def split: option.splits)

lemma to_numeric_value_eq: "to_numeric_value errors_coerce p c = Inr (coerced p c)"
  by (cases c) (auto simp: coerced_def split: option.splits)

lemma to_numeric_eq: "to_numeric errors_coerce p series = Inr (map (coerced p) series)"
  by (induction series) (simp_all add: to_numeric_value_eq)

lemma distinct_count_le: "distinct xs \<Longrightarrow> count_list xs x \<le> 1"
  by (induction xs) auto

lemma coerce_column_eq:
  assumes "distinct (columns df)" and "index_of col (columns df) = Some i"
  shows "coerce_column p col df =
           Inr \<lparr>columns = columns df, rows = map (\<lambda>r. r[i := coerced p (r ! i)]) (rows df)\<rparr>"
proof -
  have c: "\<not> 1 < count_list (columns df) col"
    using distinct_count_le [OF assms(1), of col] by simp
  have "map (\<lambda>(r, v). r[i := v]) (zip xs (map (coerced p) (map (\<lambda>r. r ! i) xs))) =
          map (\<lambda>r. r[i := coerced p (r ! i)]) xs" for xs :: "'a cell list list"
    by (induction xs) auto
  then show ?thesis
    using c assms(2) by (simp add: coerce_column_def getitem_def to_numeric_eq setitem_def)
qed

lemma coerce_row_step:
  assumes d: "distinct cols" and len: "length r = length cols"
      and i: "index_of col cols = Some i"
  shows "map (\<lambda>(c, v). if c \<in> set cs then coerced p v else v) (zip cols (r[i := coerced p (r ! i)])) =
         map (\<lambda>(c, v). if c \<in> set (col # cs) then coerced p v else v) (zip cols r)"
proof (rule nth_equalityI)
  show "length (map (\<lambda>(c, v). if c \<in> set cs then coerced p v else v)
                 (zip cols (r[i := coerced p (r ! i)]))) =
        length (map (\<lambda>(c, v). if c \<in> set (col # cs) then coerced p v else v) (zip cols r))"
    by simp
next
  fix m
  assume "m < length (map (\<lambda>(c, v). if c \<in> set cs then coerced p v else v)
                        (zip cols (r[i := coerced p (r ! i)])))"
  then have m: "m < length cols" using len by simp
  from index_of_Some [OF i] have ii: "i < length cols" "cols ! i = col" by simp_all
  show "map (\<lambda>(c, v). if c \<in> set cs then coerced p v else v)
          (zip cols (r[i := coerced p (r ! i)])) ! m =
        map (\<lambda>(c, v). if c \<in> set (col # cs) then coerced p v else v) (zip cols r) ! m"
  proof (cases "m = i")
    case True
    then show ?thesis using m len ii by (simp add: coerced_idem)
  next
    case False
    then have "cols ! m \<noteq> col"
      using d m ii by (auto simp: nth_eq_iff_index_eq)
    then show ?thesis using False m len by simp
  qed
qed

lemma coerce_columns_eq:
  assumes "well_formed df" and "set cols \<subseteq> set (columns df)"
  shows "coerce_columns p cols df =
           Inr \<lparr>columns = columns df,
                rows = map (\<lambda>r. map (\<lambda>(c, v). if c \<in> set cols then coerced p v else v)
                                   (zip (columns df) r)) (rows df)\<rparr>"
  using assms
proof (induction cols arbitrary: df)
  case Nil
  have "map (\<lambda>r. map (\<lambda>(c, v). v) (zip (columns df) r)) (rows df) = rows df"
    using Nil.prems(1)
    by (intro map_idI) (simp add: well_formed_def rectangular_def map_snd_zip [unfolded snd_def])
  then show ?case by simp
next
  case (Cons col cols)
  from Cons.prems(2) obtain i where i: "index_of col (columns df) = Some i"
    using index_of_mem [of col "columns df"] by auto
  from Cons.prems(1) have d: "distinct (columns df)" and
    rect: "\<forall>r\<in>set (rows df). length r = length (columns df)"
    by (simp_all add: well_formed_def rectangular_def)
  let ?df1 = "\<lparr>columns = columns df, rows = map (\<lambda>r. r[i := coerced p (r ! i)]) (rows df)\<rparr>"
  have wf1: "well_formed ?df1"
    using d rect by (simp add: well_formed_def rectangular_def)
  have sub1: "set cols \<subseteq> set (columns ?df1)" using Cons.prems(2) by simp
  have "coerce_columns p (col # cols) df = coerce_columns p cols ?df1"
    by (simp add: coerce_column_eq [OF d i])
  also have "\<dots> = Inr \<lparr>columns = columns df,
                rows = map (\<lambda>r. map (\<lambda>(c, v). if c \<in> set cols then coerced p v else v)
                                   (zip (columns df) r)) (rows ?df1)\<rparr>"
    using Cons.IH [OF wf1 sub1] by simp
  also have "map (\<lambda>r. map (\<lambda>(c, v). if c \<in> set cols then coerced p v else v)
                          (zip (columns df) r)) (rows ?df1) =
             map (\<lambda>r. map (\<lambda>(c, v). if c \<in> set (col # cols) then coerced p v else v)
                          (zip (columns df) r)) (rows df)"
    using rect coerce_row_step [OF d _ i, of _ cols p] by (simp add: comp_def)
  finally show ?case .
qed


lemma coerce_row_nth:
  assumes "length r = length cols" and "m < length cols"
  shows "map (\<lambda>(c, v). if c \<in> set cs then coerced p v else v) (zip cols r) ! m =
           (if cols ! m \<in> set cs then coerced p (r ! m) else r ! m)"
  using assms by simp

lemma coerce_row_idem:
  assumes "length r = length cols"
  shows "map (\<lambda>(c, v). if c \<in> set cs then coerced p v else v)
           (zip cols (map (\<lambda>(c, v). if c \<in> set cs then coerced p v else v) (zip cols r))) =
         map (\<lambda>(c, v). if c \<in> set cs then coerced p v else v) (zip cols r)"
  using assms by (intro nth_equalityI) (simp_all add: coerced_idem)

lemma coerce_loop:
  assumes wf: "well_formed df"
  shows "\<exists>df'. coerce_columns p (drop 2 (columns df)) df = Inr df' \<and>
           columns df' = columns df \<and> length (rows df') = length (rows df) \<and>
           coerce_columns p (drop 2 (columns df)) df' = Inr df' \<and>
           (\<forall>k<length (rows df). \<forall>m<length (columns df).
              rows df' ! k ! m =
                (if 2 \<le> m then coerced p (rows df ! k ! m) else rows df ! k ! m))"
proof -
  let ?cs = "drop 2 (columns df)"
  let ?f = "\<lambda>(c, v). if c \<in> set ?cs then coerced p v else v"
  let ?df' = "\<lparr>columns = columns df, rows = map (\<lambda>r. map ?f (zip (columns df) r)) (rows df)\<rparr>"
  from wf have d: "distinct (columns df)" and
    rect: "\<forall>r\<in>set (rows df). length r = length (columns df)"
    by (simp_all add: well_formed_def rectangular_def)
  have sub: "set ?cs \<subseteq> set (columns df)" by (rule set_drop_subset)
  have first: "coerce_columns p ?cs df = Inr ?df'"
    by (rule coerce_columns_eq [OF wf sub])
  have wf': "well_formed ?df'"
    using d rect by (simp add: well_formed_def rectangular_def)
  have "coerce_columns p ?cs ?df' =
          Inr \<lparr>columns = columns df,
               rows = map (\<lambda>r. map ?f (zip (columns df) r)) (rows ?df')\<rparr>"
    using coerce_columns_eq [OF wf', of ?cs p] sub by simp
  also have "map (\<lambda>r. map ?f (zip (columns df) r)) (rows ?df') = rows ?df'"
    using rect coerce_row_idem [of _ "columns df" ?cs p] by (simp add: comp_def)
  finally have again: "coerce_columns p ?cs ?df' = Inr ?df'" by simp
  have member: "columns df ! m \<in> set ?cs \<longleftrightarrow> 2 \<le> m" if m: "m < length (columns df)" for m
  proof
    assume "columns df ! m \<in> set ?cs"
    then obtain n where n: "n < length ?cs" "?cs ! n = columns df ! m"
      by (auto simp: in_set_conv_nth)
    then have "columns df ! (2 + n) = columns df ! m" by simp
    moreover have "2 + n < length (columns df)" using n(1) by simp
    ultimately have "2 + n = m" using d m by (simp add: nth_eq_iff_index_eq)
    then show "2 \<le> m" by simp
  next
    assume "2 \<le> m"
    then have "2 + (m - 2) = m" by simp
    then have "columns df ! m = ?cs ! (m - 2)" "m - 2 < length ?cs"
      using m \<open>2 \<le> m\<close> by (simp_all del: One_nat_def)
    then show "columns df ! m \<in> set ?cs" by (metis nth_mem)
  qed
  have cellwise: "rows ?df' ! k ! m =
                    (if 2 \<le> m then coerced p (rows df ! k ! m) else rows df ! k ! m)"
    if k: "k < length (rows df)" and m: "m < length (columns df)" for k m
  proof -
    from k rect have len: "length (rows df ! k) = length (columns df)" by simp
    show ?thesis
      using k coerce_row_nth [OF len m, of ?cs p] member [OF m] by simp
  qed
  show ?thesis using first again cellwise by (intro exI [of _ ?df']) simp
qed

text \<open>
  Claim C4. With \<open>errors="coerce"\<close>, as the programs call it, the numeric conversion of a
  cell never raises: it returns a number or the null marker, never a text; converting
  the result again returns it unchanged, in particular a number stays the same number;
  a text that is not numeric gives the null marker, a numeric text its number. The same
  holds for a whole column. On a well-formed table the loop over the columns from the
  third on (stats.py, avgpointspergame.py) returns a table with the same columns and as
  many rows, in which every cell of those columns is the conversion of the cell it
  replaces and the first two columns are untouched; running the loop again changes
  nothing.
\<close>

theorem numeric_coercion_never_raises:
  "(\<exists>v. to_numeric_value errors_coerce p c = Inr v \<and> (\<forall>s. v \<noteq> Str s) \<and>
        to_numeric_value errors_coerce p v = Inr v) \<and>
   to_numeric_value errors_coerce p (Num n) = Inr (Num n) \<and>
   (p s = None \<longrightarrow> to_numeric_value errors_coerce p (Str s) = Inr Null) \<and>
   (\<forall>m. p s = Some m \<longrightarrow> to_numeric_value errors_coerce p (Str s) = Inr (Num m)) \<and>
   (\<exists>vs. to_numeric errors_coerce p series = Inr vs \<and> length vs = length series \<and>
         (\<forall>v\<in>set vs. \<forall>s. v \<noteq> Str s) \<and> to_numeric errors_coerce p vs = Inr vs) \<and>
   (well_formed df \<longrightarrow>
      (\<exists>df'. coerce_columns p (drop 2 (columns df)) df = Inr df' \<and>
             avgpoints_coerce p df = Inr df' \<and>
             columns df' = columns df \<and> length (rows df') = length (rows df) \<and>
             coerce_columns p (drop 2 (columns df)) df' = Inr df' \<and>
             (\<forall>k<length (rows df). \<forall>m<length (columns df).
                if 2 \<le> m
                then to_numeric_value errors_coerce p (rows df ! k ! m) = Inr (rows df' ! k ! m)
                else rows df' ! k ! m = rows df ! k ! m)))"
proof -
  have "\<exists>df'. coerce_columns p (drop 2 (columns df)) df = Inr df' \<and>
             avgpoints_coerce p df = Inr df' \<and>
             columns df' = columns df \<and> length (rows df') = length (rows df) \<and>
             coerce_columns p (drop 2 (columns df)) df' = Inr df' \<and>
             (\<forall>k<length (rows df). \<forall>m<length (columns df).
                if 2 \<le> m
                then to_numeric_value errors_coerce p (rows df ! k ! m) = Inr (rows df' ! k ! m)
                else rows df' ! k ! m = rows df ! k ! m)"
    if "well_formed df"
    using coerce_loop [OF that, of p]
    by (auto simp: avgpoints_coerce_def to_numeric_value_eq)
  then show ?thesis
    using to_numeric_value_coerce [of p c] to_numeric_coerce [of p series] by simp
qed

theorem numeric_coercion_never_raises_witness:
  "sample_parse ''n/a'' = None \<and> sample_parse ''80'' = Some 80 \<and>
   to_numeric_value errors_coerce sample_parse (Str ''n/a'') = Inr Null \<and>
   to_numeric_value errors_coerce sample_parse (Str ''80'') = Inr (Num 80) \<and>
   to_numeric_value errors_coerce sample_parse (Num 80) = Inr (Num 80) \<and>
   to_numeric errors_coerce sample_parse [Str ''80'', Str ''n/a'', Null] = Inr [Num 80, Null, Null] \<and>
   to_numeric errors_coerce sample_parse [Num 80, Null, Null] = Inr [Num 80, Null, Null] \<and>
   well_formed sample_text_stats \<and>
   avgpoints_coerce sample_parse sample_text_stats =
     Inr \<lparr>columns = [''Rank'', ''Team'', ''PPG'', ''Conference''],
          rows = [[Str ''1'', Str ''A'', Num 80, Null], [Str ''2'', Str ''B'', Null, Null]]\<rparr>"
proof -
  have w: "well_formed sample_text_stats"
    by (simp add: well_formed_def rectangular_def sample_text_stats_def)
  have e: "avgpoints_coerce sample_parse sample_text_stats =
     Inr \<lparr>columns = [''Rank'', ''Team'', ''PPG'', ''Conference''],
          rows = [[Str ''1'', Str ''A'', Num 80, Null], [Str ''2'', Str ''B'', Null, Null]]\<rparr>"
    by (simp add: avgpoints_coerce_def coerce_column_def getitem_def setitem_def
        sample_text_stats_def sample_parse_def)
  from numeric_coercion_never_raises
         [of sample_parse "Str ''n/a''" 80 "''n/a''" "[Str ''80'', Str ''n/a'', Null]" sample_text_stats]
       numeric_coercion_never_raises
         [of sample_parse "Str ''80''" 80 "''80''" "[Num 80, Null, Null]" sample_text_stats]
       w e
  show ?thesis by (simp add: sample_parse_def)
qed


subsection \<open>The update callbacks\<close>

lemma record_lookup:
  assumes "distinct cols" and "length r = length cols" and "index_of c cols = Some i"
  shows "map_of (rev (zip cols r)) c = Some (r ! i)"
proof -
  from index_of_Some [OF assms(3)] have i: "i < length cols" "cols ! i = c" by simp_all
  have d: "distinct (map fst (zip cols r))"
    using assms(1,2) by simp
  have "map_of (rev (zip cols r)) = map_of (zip cols r)"
    using d by (subst map_of_inject_set) (simp_all add: rev_map [symmetric])
  moreover have "map_of (zip cols r) (cols ! i) = Some (r ! i)"
    using assms(1,2) i(1) by (simp add: map_of_zip_nth)
  ultimately show ?thesis using i(2) by simp
qed

lemma bar_traces_eq:
  assumes "index_of ''Team'' (columns f) = Some it" and "set stats \<subseteq> set (columns f)"
  shows "bar_traces f stats =
           Inr (map (\<lambda>stat. \<lparr>trace_x = map (\<lambda>r. r ! it) (rows f),
                              trace_y = map (\<lambda>r. r ! the (index_of stat (columns f))) (rows f),
                              trace_type = ''bar'', trace_name = stat\<rparr>) stats)"
  using assms
proof (induction stats)
  case Nil
  then show ?case by simp
next
  case (Cons stat stats)
  from Cons.prems(2) obtain j where "index_of stat (columns f) = Some j"
    using index_of_mem [of stat "columns f"] by auto
  with Cons show ?case by (simp add: getitem_def)
qed

lemma stats_filter_cases:
  assumes "''Team'' \<in> set (columns df)"
  shows "\<exists>P. stats_filter df teams = Inr (df\<lparr>rows := filter P (rows df)\<rparr>) \<and>
             (selection teams = [] \<longrightarrow> (\<forall>r. P r))"
proof (cases "selection teams = []")
  case True
  then have "stats_filter df teams = Inr (df\<lparr>rows := filter (\<lambda>r. True) (rows df)\<rparr>)"
    by (simp add: stats_filter_def)
  then show ?thesis using True by blast
next
  case False
  from assms obtain i where "index_of ''Team'' (columns df) = Some i"
    using index_of_mem by fastforce
  then show ?thesis using False by (auto simp: stats_filter_def filter_isin_def)
qed

lemma fgp_filter_cases:
  assumes "''Conference'' \<in> set (columns df)"
  shows "\<exists>P. fgp_filter df conf = Inr (df\<lparr>rows := filter P (rows df)\<rparr>) \<and>
             (selection conf = [] \<or> selection conf = ''All'' \<longrightarrow> (\<forall>r. P r))"
proof (cases "selection conf = [] \<or> selection conf = ''All''")
  case True
  then have "fgp_filter df conf = Inr (df\<lparr>rows := filter (\<lambda>r. True) (rows df)\<rparr>)"
    by (auto simp: fgp_filter_def)
  then show ?thesis using True by blast
next
  case False
  from assms obtain i where "index_of ''Conference'' (columns df) = Some i"
    using index_of_mem by fastforce
  then show ?thesis using False by (auto simp: fgp_filter_def filter_eq_def)
qed

lemma figure_returns:
  assumes "''Team'' \<in> set (columns f)" and "set stats \<subseteq> set (columns f)"
  shows "\<exists>fig. bar_figure title f stats = Inr fig"
proof -
  from assms(1) obtain it where "index_of ''Team'' (columns f) = Some it"
    using index_of_mem by fastforce
  from bar_traces_eq [OF this assms(2)] show ?thesis by (simp add: bar_figure_def)
qed

lemma records_of_filtered:
  "length (to_dict_records (df\<lparr>rows := filter P (rows df)\<rparr>)) \<le> length (rows df) \<and>
   set (to_dict_records (df\<lparr>rows := filter P (rows df)\<rparr>)) \<subseteq> set (to_dict_records df)"
  by (auto simp: to_dict_records_def)

lemma filtered_well_formed:
  "well_formed df \<Longrightarrow> well_formed (df\<lparr>rows := filter P (rows df)\<rparr>)"
  by (simp add: well_formed_def rectangular_def)

lemma traces_aligned:
  assumes wf: "well_formed f" and team: "''Team'' \<in> set (columns f)"
      and stats: "set stats \<subseteq> set (columns f)"
  shows "\<exists>ts. bar_traces f stats = Inr ts \<and> map trace_name ts = stats \<and>
           (\<forall>t\<in>set ts. trace_type t = ''bar'' \<and>
              length (trace_x t) = length (to_dict_records f) \<and>
              length (trace_y t) = length (to_dict_records f) \<and>
              (\<forall>k<length (to_dict_records f).
                 (to_dict_records f ! k) ''Team'' = Some (trace_x t ! k) \<and>
                 (to_dict_records f ! k) (trace_name t) = Some (trace_y t ! k)))"
proof -
  from team obtain it where it: "index_of ''Team'' (columns f) = Some it"
    using index_of_mem by fastforce
  let ?tr = "\<lambda>stat. \<lparr>trace_x = map (\<lambda>r. r ! it) (rows f),
                     trace_y = map (\<lambda>r. r ! the (index_of stat (columns f))) (rows f),
                     trace_type = ''bar'', trace_name = stat\<rparr>"
  have eq: "bar_traces f stats = Inr (map ?tr stats)"
    by (rule bar_traces_eq [OF it stats])
  have names: "map trace_name (map ?tr stats) = stats"
    by (simp add: comp_def)
  have aligned: "(to_dict_records f ! k) ''Team'' = Some (trace_x (?tr stat) ! k) \<and>
                 (to_dict_records f ! k) stat = Some (trace_y (?tr stat) ! k)"
    if "stat \<in> set stats" and k: "k < length (rows f)" for stat k
  proof -
    from that stats obtain j where j: "index_of stat (columns f) = Some j"
      using index_of_mem [of stat "columns f"] by auto
    from wf k have d: "distinct (columns f)" and len: "length (rows f ! k) = length (columns f)"
      by (simp_all add: well_formed_def rectangular_def)
    show ?thesis
      using k record_lookup [OF d len it] record_lookup [OF d len j]
      by (simp add: to_dict_records_def j)
  qed
  show ?thesis
    using eq names aligned by (auto simp: to_dict_records_def)
qed

text \<open>
  Claim C5. Let the table of the dashboard be well formed and have a \<open>Team\<close> column,
  and let the selected statistics be columns of it. Then the callback of stats.py returns,
  and the records it returns for the grid are those of the rows that pass a filter: no
  more records than the table has rows, each of them a record of the table, and all of
  them when no team is selected (\<open>None\<close> or the empty list). The same holds for the
  callback of fieldgoalpercentage.py on a table with a \<open>Conference\<close> column, where the
  selections that keep every row are \<open>None\<close>, the empty text and \<open>All\<close>.
\<close>

theorem filtering_is_projection:
  assumes "well_formed df" and "''Team'' \<in> set (columns df)"
      and "set (selection selected_stats) \<subseteq> set (columns df)"
  shows "(\<exists>figure recs P.
            stats_update_dashboard df selected_teams selected_stats = Inr (figure, recs) \<and>
            recs = to_dict_records (df\<lparr>rows := filter P (rows df)\<rparr>) \<and>
            length recs \<le> length (rows df) \<and>
            set recs \<subseteq> set (to_dict_records df) \<and>
            (selection selected_teams = [] \<longrightarrow> recs = to_dict_records df)) \<and>
         (''Conference'' \<in> set (columns df) \<longrightarrow>
          (\<exists>figure recs P.
            fgp_update_dashboard df selected_conference selected_stats = Inr (figure, recs) \<and>
            recs = to_dict_records (df\<lparr>rows := filter P (rows df)\<rparr>) \<and>
            length recs \<le> length (rows df) \<and>
            set recs \<subseteq> set (to_dict_records df) \<and>
            (selection selected_conference = [] \<or> selection selected_conference = ''All'' \<longrightarrow>
               recs = to_dict_records df)))"
proof (intro conjI impI)
  from stats_filter_cases [OF assms(2), of selected_teams] obtain P where
    P: "stats_filter df selected_teams = Inr (df\<lparr>rows := filter P (rows df)\<rparr>)"
       "selection selected_teams = [] \<longrightarrow> (\<forall>r. P r)" by blast
  let ?f = "df\<lparr>rows := filter P (rows df)\<rparr>"
  have "\<exists>figure. (if selection selected_stats \<noteq> []
                   then bar_figure ''Comparison of Selected Stats'' ?f (selection selected_stats)
                   else Inr placeholder_figure) = Inr figure"
    using figure_returns [of ?f "selection selected_stats"] assms(2,3) by simp
  then obtain figure where
    "stats_update_dashboard df selected_teams selected_stats = Inr (figure, to_dict_records ?f)"
    by (auto simp: stats_update_dashboard_def P(1))
  moreover have "selection selected_teams = [] \<longrightarrow> to_dict_records ?f = to_dict_records df"
    using P(2) by (simp add: to_dict_records_def)
  ultimately show "\<exists>figure recs P.
            stats_update_dashboard df selected_teams selected_stats = Inr (figure, recs) \<and>
            recs = to_dict_records (df\<lparr>rows := filter P (rows df)\<rparr>) \<and>
            length recs \<le> length (rows df) \<and>
            set recs \<subseteq> set (to_dict_records df) \<and>
            (selection selected_teams = [] \<longrightarrow> recs = to_dict_records df)"
    using records_of_filtered [where df = df and P = P] by blast
next
  assume c: "''Conference'' \<in> set (columns df)"
  from fgp_filter_cases [OF c, of selected_conference] obtain P where
    P: "fgp_filter df selected_conference = Inr (df\<lparr>rows := filter P (rows df)\<rparr>)"
       "selection selected_conference = [] \<or> selection selected_conference = ''All''
          \<longrightarrow> (\<forall>r. P r)" by blast
  let ?f = "df\<lparr>rows := filter P (rows df)\<rparr>"
  have "\<exists>figure. (if selection selected_stats \<noteq> []
                   then bar_figure
                        (''Comparison of Selected Stats in '' @
                           (if selection selected_conference \<noteq> []
                            then selection selected_conference else ''All Conferences''))
                        ?f (selection selected_stats)
                   else Inr placeholder_figure) = Inr figure"
    using figure_returns [of ?f "selection selected_stats"] assms(2,3) by simp
  then obtain figure where
    "fgp_update_dashboard df selected_conference selected_stats = Inr (figure, to_dict_records ?f)"
    by (auto simp: fgp_update_dashboard_def P(1))
  moreover have "selection selected_conference = [] \<or> selection selected_conference = ''All''
                   \<longrightarrow> to_dict_records ?f = to_dict_records df"
    using P(2) by (auto simp: to_dict_records_def)
  ultimately show "\<exists>figure recs P.
            fgp_update_dashboard df selected_conference selected_stats = Inr (figure, recs) \<and>
            recs = to_dict_records (df\<lparr>rows := filter P (rows df)\<rparr>) \<and>
            length recs \<le> length (rows df) \<and>
            set recs \<subseteq> set (to_dict_records df) \<and>
            (selection selected_conference = [] \<or> selection selected_conference = ''All'' \<longrightarrow>
               recs = to_dict_records df)"
    using records_of_filtered [where df = df and P = P] by blast
qed


theorem filtering_is_projection_witness:
  "well_formed sample_conf_stats \<and> ''Team'' \<in> set (columns sample_conf_stats) \<and>
   ''Conference'' \<in> set (columns sample_conf_stats) \<and>
   set (selection (Some [''PPG''])) \<subseteq> set (columns sample_conf_stats) \<and>
   (\<exists>figure recs. stats_update_dashboard sample_conf_stats (Some [''A'', ''C'']) (Some [''PPG''])
                     = Inr (figure, recs) \<and> length recs = 2) \<and>
   (\<exists>figure. stats_update_dashboard sample_conf_stats (Some []) (Some [''PPG''])
                = Inr (figure, to_dict_records sample_conf_stats)) \<and>
   (\<exists>figure recs. fgp_update_dashboard sample_conf_stats (Some ''SEC'') (Some [''PPG''])
                     = Inr (figure, recs) \<and> length recs = 1) \<and>
   (\<exists>figure. fgp_update_dashboard sample_conf_stats (Some ''All'') (Some [''PPG''])
                = Inr (figure, to_dict_records sample_conf_stats))"
proof -
  have w: "well_formed sample_conf_stats"
    by (simp add: well_formed_def rectangular_def sample_conf_stats_def)
  have t: "''Team'' \<in> set (columns sample_conf_stats)"
    and c: "''Conference'' \<in> set (columns sample_conf_stats)"
    and s: "set (selection (Some [''PPG''])) \<subseteq> set (columns sample_conf_stats)"
    by (simp_all add: sample_conf_stats_def selection_def)
  have e1: "\<exists>figure recs. stats_update_dashboard sample_conf_stats (Some [''A'', ''C'']) (Some [''PPG''])
                     = Inr (figure, recs) \<and> length recs = 2"
    by (simp add: stats_update_dashboard_def stats_filter_def filter_isin_def selection_def
        bar_figure_def getitem_def to_dict_records_def sample_conf_stats_def)
  have e2: "\<exists>figure recs. fgp_update_dashboard sample_conf_stats (Some ''SEC'') (Some [''PPG''])
                     = Inr (figure, recs) \<and> length recs = 1"
    by (simp add: fgp_update_dashboard_def fgp_filter_def filter_eq_def selection_def
        bar_figure_def getitem_def to_dict_records_def sample_conf_stats_def)
  from filtering_is_projection [OF w t s, of "Some []" "Some ''All''"] w t c s e1 e2
  show ?thesis by (auto simp: selection_def)
qed

text \<open>
  Claim C6. Under the same conditions and for a non-empty selection of columns, the
  figure of the callback of stats.py has one bar series for each selected column, in the
  order of the selection and named after it; each series has as many categories and as
  many values as there are filtered records, and at every position the category is the
  \<open>Team\<close> value and the value is the selected column's value of the filtered record at
  that position. The same holds for \<open>update_graph\<close> of app.py, which does not filter.
\<close>

theorem chart_series_aligned:
  assumes "well_formed df" and "''Team'' \<in> set (columns df)"
      and "selected_stats \<noteq> []" and "set selected_stats \<subseteq> set (columns df)"
  shows "(\<exists>figure recs.
            stats_update_dashboard df selected_teams (Some selected_stats) = Inr (figure, recs) \<and>
            map trace_name (fig_data figure) = selected_stats \<and>
            (\<forall>t\<in>set (fig_data figure). trace_type t = ''bar'' \<and>
               length (trace_x t) = length recs \<and> length (trace_y t) = length recs \<and>
               (\<forall>k<length recs.
                  (recs ! k) ''Team'' = Some (trace_x t ! k) \<and>
                  (recs ! k) (trace_name t) = Some (trace_y t ! k)))) \<and>
         (\<exists>figure.
            app_update_graph df (Some selected_stats) = Inr figure \<and>
            map trace_name (fig_data figure) = selected_stats \<and>
            (\<forall>t\<in>set (fig_data figure). trace_type t = ''bar'' \<and>
               length (trace_x t) = length (to_dict_records df) \<and>
               length (trace_y t) = length (to_dict_records df) \<and>
               (\<forall>k<length (to_dict_records df).
                  (to_dict_records df ! k) ''Team'' = Some (trace_x t ! k) \<and>
                  (to_dict_records df ! k) (trace_name t) = Some (trace_y t ! k))))"
proof (rule conjI)
  from stats_filter_cases [OF assms(2), of selected_teams] obtain P where
    P: "stats_filter df selected_teams = Inr (df\<lparr>rows := filter P (rows df)\<rparr>)" by blast
  let ?f = "df\<lparr>rows := filter P (rows df)\<rparr>"
  have wf: "well_formed ?f" using assms(1) by (rule filtered_well_formed)
  from traces_aligned [OF wf, of selected_stats] assms(2,4) obtain ts where
    ts: "bar_traces ?f selected_stats = Inr ts" "map trace_name ts = selected_stats"
        "\<forall>t\<in>set ts. trace_type t = ''bar'' \<and>
              length (trace_x t) = length (to_dict_records ?f) \<and>
              length (trace_y t) = length (to_dict_records ?f) \<and>
              (\<forall>k<length (to_dict_records ?f).
                 (to_dict_records ?f ! k) ''Team'' = Some (trace_x t ! k) \<and>
                 (to_dict_records ?f ! k) (trace_name t) = Some (trace_y t ! k))"
    by auto
  have "stats_update_dashboard df selected_teams (Some selected_stats) =
          Inr (\<lparr>fig_data = ts, fig_title = ''Comparison of Selected Stats'',
                fig_xaxis_title = ''Team'', fig_yaxis_title = ''Value'',
                fig_barmode = Some ''group''\<rparr>, to_dict_records ?f)"
    using assms(3) by (simp add: stats_update_dashboard_def P selection_def bar_figure_def ts(1))
  then show "\<exists>figure recs.
            stats_update_dashboard df selected_teams (Some selected_stats) = Inr (figure, recs) \<and>
            map trace_name (fig_data figure) = selected_stats \<and>
            (\<forall>t\<in>set (fig_data figure). trace_type t = ''bar'' \<and>
               length (trace_x t) = length recs \<and> length (trace_y t) = length recs \<and>
               (\<forall>k<length recs.
                  (recs ! k) ''Team'' = Some (trace_x t ! k) \<and>
                  (recs ! k) (trace_name t) = Some (trace_y t ! k)))"
    using ts(2,3) by simp
next
  have keep: "filter (\<lambda>stat. stat \<in> set (columns df)) selected_stats = selected_stats"
    using assms(4) by (auto simp: filter_id_conv)
  from traces_aligned [OF assms(1,2,4)] obtain ts where
    ts: "bar_traces df selected_stats = Inr ts" "map trace_name ts = selected_stats"
        "\<forall>t\<in>set ts. trace_type t = ''bar'' \<and>
              length (trace_x t) = length (to_dict_records df) \<and>
              length (trace_y t) = length (to_dict_records df) \<and>
              (\<forall>k<length (to_dict_records df).
                 (to_dict_records df ! k) ''Team'' = Some (trace_x t ! k) \<and>
                 (to_dict_records df ! k) (trace_name t) = Some (trace_y t ! k))"
    by auto
  have "app_update_graph df (Some selected_stats) =
          Inr \<lparr>fig_data = ts, fig_title = ''Comparison of Selected Stats'',
               fig_xaxis_title = ''Team'', fig_yaxis_title = ''Value'',
               fig_barmode = Some ''group''\<rparr>"
    using assms(3) by (simp add: app_update_graph_def selection_def keep bar_figure_def ts(1))
  then show "\<exists>figure.
            app_update_graph df (Some selected_stats) = Inr figure \<and>
            map trace_name (fig_data figure) = selected_stats \<and>
            (\<forall>t\<in>set (fig_data figure). trace_type t = ''bar'' \<and>
               length (trace_x t) = length (to_dict_records df) \<and>
               length (trace_y t) = length (to_dict_records df) \<and>
               (\<forall>k<length (to_dict_records df).
                  (to_dict_records df ! k) ''Team'' = Some (trace_x t ! k) \<and>
                  (to_dict_records df ! k) (trace_name t) = Some (trace_y t ! k)))"
    using ts(2,3) by simp
qed


theorem chart_series_aligned_witness:
  "well_formed sample_conf_stats \<and> ''Team'' \<in> set (columns sample_conf_stats) \<and>
   [''PPG''] \<noteq> [] \<and> set [''PPG''] \<subseteq> set (columns sample_conf_stats) \<and>
   (\<exists>recs. stats_update_dashboard sample_conf_stats (Some [''A'', ''C'']) (Some [''PPG'']) =
             Inr (\<lparr>fig_data = [\<lparr>trace_x = [Str ''A'', Str ''C''], trace_y = [Num 80, Num 7],
                                 trace_type = ''bar'', trace_name = ''PPG''\<rparr>],
                   fig_title = ''Comparison of Selected Stats'', fig_xaxis_title = ''Team'',
                   fig_yaxis_title = ''Value'', fig_barmode = Some ''group''\<rparr>, recs) \<and>
           length recs = 2) \<and>
   app_update_graph sample_conf_stats (Some [''PPG'']) =
     Inr \<lparr>fig_data = [\<lparr>trace_x = [Str ''A'', Str ''B'', Str ''C''],
                        trace_y = [Num 80, Null, Num 7],
                        trace_type = ''bar'', trace_name = ''PPG''\<rparr>],
          fig_title = ''Comparison of Selected Stats'', fig_xaxis_title = ''Team'',
          fig_yaxis_title = ''Value'', fig_barmode = Some ''group''\<rparr>"
proof -
  have w: "well_formed sample_conf_stats"
    by (simp add: well_formed_def rectangular_def sample_conf_stats_def)
  have t: "''Team'' \<in> set (columns sample_conf_stats)"
    and n: "[''PPG''] \<noteq> []"
    and s: "set [''PPG''] \<subseteq> set (columns sample_conf_stats)"
    by (simp_all add: sample_conf_stats_def)
  have e1: "\<exists>recs. stats_update_dashboard sample_conf_stats (Some [''A'', ''C'']) (Some [''PPG'']) =
             Inr (\<lparr>fig_data = [\<lparr>trace_x = [Str ''A'', Str ''C''], trace_y = [Num 80, Num 7],
                                 trace_type = ''bar'', trace_name = ''PPG''\<rparr>],
                   fig_title = ''Comparison of Selected Stats'', fig_xaxis_title = ''Team'',
                   fig_yaxis_title = ''Value'', fig_barmode = Some ''group''\<rparr>, recs) \<and>
           length recs = 2"
    by (simp add: stats_update_dashboard_def stats_filter_def filter_isin_def selection_def
        bar_figure_def getitem_def to_dict_records_def sample_conf_stats_def)
  have e2: "app_update_graph sample_conf_stats (Some [''PPG'']) =
     Inr \<lparr>fig_data = [\<lparr>trace_x = [Str ''A'', Str ''B'', Str ''C''],
                        trace_y = [Num 80, Null, Num 7],
                        trace_type = ''bar'', trace_name = ''PPG''\<rparr>],
          fig_title = ''Comparison of Selected Stats'', fig_xaxis_title = ''Team'',
          fig_yaxis_title = ''Value'', fig_barmode = Some ''group''\<rparr>"
    by (simp add: app_update_graph_def selection_def bar_figure_def getitem_def
        sample_conf_stats_def)
  from chart_series_aligned [OF w t n s, of "Some [''A'', ''C'']"] w t n s e1 e2
  show ?thesis by blast
qed


subsection \<open>The left join\<close>

lemma filter_unique_key:
  "distinct (map f xs) \<Longrightarrow>
     filter (\<lambda>x. f x = v) xs = (case find (\<lambda>x. f x = v) xs of None \<Rightarrow> [] | Some x \<Rightarrow> [x])"
proof (induction xs)
  case Nil
  then show ?case by simp
next
  case (Cons a xs)
  have "filter (\<lambda>x. f x = f a) xs = []"
  proof -
    have "f x \<noteq> f a" if "x \<in> set xs" for x
      using Cons.prems that by (metis distinct.simps(2) image_eqI list.simps(9) set_map)
    then show ?thesis by (simp add: filter_empty_conv)
  qed
  with Cons show ?case by auto
qed

lemma select_team_rank_eq:
  assumes "index_of ''Team'' (columns df) = Some j" and "index_of ''Rank'' (columns df) = Some k"
  shows "select_team_rank df =
           Inr \<lparr>columns = [''Team'', ''Rank''], rows = map (\<lambda>r. [r ! j, r ! k]) (rows df)\<rparr>"
proof -
  have "map (\<lambda>(t, r). [t, r]) (zip (map f xs) (map g xs)) = map (\<lambda>r. [f r, g r]) xs"
    for f g :: "'a cell list \<Rightarrow> 'a cell" and xs
    by (induction xs) auto
  then show ?thesis using assms by (simp add: select_team_rank_def getitem_def)
qed

lemma pd_merge_left_unique:
  assumes i: "index_of ''Team'' (columns left) = Some i"
      and uniq: "distinct (map (\<lambda>r. r ! j) rs)"
  shows "pd_merge_left ''Team'' left
           \<lparr>columns = [''Team'', ''Rank''], rows = map (\<lambda>r. [r ! j, r ! k]) rs\<rparr> =
         Inr \<lparr>columns = map (\<lambda>c. if c = ''Rank'' then ''Rank_x'' else c) (columns left) @
                        [if ''Rank'' \<in> set (columns left) then ''Rank_y'' else ''Rank''],
              rows = map (\<lambda>l. l @ [case find (\<lambda>r. r ! j = l ! i) rs of
                                      None \<Rightarrow> Null | Some r \<Rightarrow> r ! k]) (rows left)\<rparr>"
proof -
  have cols: "map (\<lambda>c. if c \<noteq> ''Team'' \<and> c \<in> set (columns left) \<and> c \<in> set [''Rank'']
                        then c @ ''_x'' else c) (columns left) =
              map (\<lambda>c. if c = ''Rank'' then ''Rank_x'' else c) (columns left)"
    by (rule map_cong) auto
  have row: "(case filter (\<lambda>r. r ! 0 = l ! i) (map (\<lambda>r. [r ! j, r ! k]) rs) of
                [] \<Rightarrow> [l @ replicate (length [''Rank'']) Null]
              | ms \<Rightarrow> map (\<lambda>r. l @ remove_nth 0 r) ms) =
             [l @ [case find (\<lambda>r. r ! j = l ! i) rs of None \<Rightarrow> Null | Some r \<Rightarrow> r ! k]]"
    for l :: "'a cell list"
  proof -
    have "filter (\<lambda>r. r ! 0 = l ! i) (map (\<lambda>r. [r ! j, r ! k]) rs) =
            map (\<lambda>r. [r ! j, r ! k]) (filter (\<lambda>r. r ! j = l ! i) rs)"
      by (simp add: filter_map comp_def)
    also have "\<dots> = (case find (\<lambda>r. r ! j = l ! i) rs of
                       None \<Rightarrow> [] | Some r \<Rightarrow> [[r ! j, r ! k]])"
      using filter_unique_key [OF uniq, of "l ! i"] by (simp split: option.splits)
    finally show ?thesis by (simp add: remove_nth_def split: option.splits)
  qed
  have "concat (map (\<lambda>l. [g l]) xs) = map g xs" for g :: "'a cell list \<Rightarrow> 'a cell list" and xs
    by (induction xs) auto
  then show ?thesis
    using i by (simp add: pd_merge_left_def remove_nth_def Let_def cols row)
qed

text \<open>
  Claim C3. Let both tables be well formed and non-empty, with a \<open>Team\<close> column of team
  names in each and a \<open>Rank\<close> column in the rankings, and let no team occur twice in the
  rankings. Then the merge returns a table with exactly one row for each row of the
  statistics table, in the same order: the values of that row, followed by the joined
  rank, which is the \<open>Rank\<close> value of the rankings row of the same team, and null when
  the rankings have no such team. The joined column is labelled \<open>Rank\<close>, or \<open>Rank_y\<close>
  when the statistics table has a \<open>Rank\<close> column of its own.
\<close>

theorem merge_keeps_primary_rows:
  assumes wf: "well_formed stats_df" "well_formed rankings_df"
      and ne: "\<not> empty stats_df" "\<not> empty rankings_df"
      and i: "index_of ''Team'' (columns stats_df) = Some i"
      and j: "index_of ''Team'' (columns rankings_df) = Some j"
      and k: "index_of ''Rank'' (columns rankings_df) = Some k"
      and keys: "\<forall>r\<in>set (rows stats_df). \<exists>s. r ! i = Str s"
                "\<forall>r\<in>set (rows rankings_df). \<exists>s. r ! j = Str s"
      and uniq: "distinct (map (\<lambda>r. r ! j) (rows rankings_df))"
  shows "\<exists>merged.
           merge_stats_and_rankings stats_df rankings_df = Inr merged \<and>
           length (rows merged) = length (rows stats_df) \<and>
           columns merged ! length (columns stats_df) =
             (if ''Rank'' \<in> set (columns stats_df) then ''Rank_y'' else ''Rank'') \<and>
           (\<forall>n<length (rows stats_df).
              take (length (columns stats_df)) (rows merged ! n) = rows stats_df ! n \<and>
              rows merged ! n ! length (columns stats_df) =
                (case find (\<lambda>r. r ! j = rows stats_df ! n ! i) (rows rankings_df) of
                   None \<Rightarrow> Null | Some r \<Rightarrow> r ! k))"
proof -
  let ?rank = "\<lambda>l. case find (\<lambda>r. r ! j = l ! i) (rows rankings_df) of
                     None \<Rightarrow> Null | Some r \<Rightarrow> r ! k"
  let ?m = "\<lparr>columns = map (\<lambda>c. if c = ''Rank'' then ''Rank_x'' else c) (columns stats_df) @
                        [if ''Rank'' \<in> set (columns stats_df) then ''Rank_y'' else ''Rank''],
             rows = map (\<lambda>l. l @ [?rank l]) (rows stats_df)\<rparr>"
  have merge: "merge_stats_and_rankings stats_df rankings_df = Inr (ensure_conference ?m)"
    using ne by (simp add: merge_stats_and_rankings_def select_team_rank_eq [OF j k]
        pd_merge_left_unique [OF i uniq])
  have len: "length l = length (columns stats_df)" if "l \<in> set (rows stats_df)" for l
    using wf(1) that by (simp add: well_formed_def rectangular_def)
  have cols: "columns (ensure_conference ?m) ! length (columns stats_df) =
                (if ''Rank'' \<in> set (columns stats_df) then ''Rank_y'' else ''Rank'')"
  proof (cases "''Conference'' \<in> set (columns ?m)")
    case True
    then have "ensure_conference ?m = ?m" by (simp add: ensure_conference_def)
    then show ?thesis by (simp add: nth_append)
  next
    case False
    from ensure_conference_default(1) [OF False] show ?thesis by (simp add: nth_append)
  qed
  have rws: "length (rows (ensure_conference ?m)) = length (rows stats_df) \<and>
             (\<forall>n<length (rows stats_df).
                take (length (columns stats_df)) (rows (ensure_conference ?m) ! n) = rows stats_df ! n \<and>
                rows (ensure_conference ?m) ! n ! length (columns stats_df) = ?rank (rows stats_df ! n))"
  proof (cases "''Conference'' \<in> set (columns ?m)")
    case True
    then have "ensure_conference ?m = ?m" by (simp add: ensure_conference_def)
    then show ?thesis using len by (simp add: nth_append)
  next
    case False
    from ensure_conference_default(2) [OF False]
    have "rows (ensure_conference ?m) =
            map (\<lambda>l. l @ [?rank l] @ [Str ''Unknown Conference'']) (rows stats_df)"
      by (simp add: comp_def)
    then show ?thesis using len by (simp add: nth_append)
  qed
  show ?thesis using merge cols rws by blast
qed


theorem merge_keeps_primary_rows_witness:
  "well_formed sample_conf_stats \<and> well_formed sample_rankings \<and>
   \<not> empty sample_conf_stats \<and> \<not> empty sample_rankings \<and>
   index_of ''Team'' (columns sample_conf_stats) = Some 1 \<and>
   index_of ''Team'' (columns sample_rankings) = Some 1 \<and>
   index_of ''Rank'' (columns sample_rankings) = Some 0 \<and>
   list_all (\<lambda>r. \<exists>s. r ! 1 = Str s) (rows sample_conf_stats) \<and>
   list_all (\<lambda>r. \<exists>s. r ! 1 = Str s) (rows sample_rankings) \<and>
   distinct (map (\<lambda>r. r ! 1) (rows sample_rankings)) \<and>
   merge_stats_and_rankings sample_conf_stats sample_rankings =
     Inr \<lparr>columns = [''Rank_x'', ''Team'', ''PPG'', ''Conference'', ''Rank_y''],
          rows = [[Str ''1'', Str ''A'', Num 80, Str ''ACC'', Num 6],
                  [Str ''2'', Str ''B'', Null, Str ''SEC'', Num 5],
                  [Str ''3'', Str ''C'', Num 7, Str ''ACC'', Null]]\<rparr>"
proof -
  have w: "well_formed sample_conf_stats" "well_formed sample_rankings"
    by (simp_all add: well_formed_def rectangular_def sample_conf_stats_def sample_rankings_def)
  have ne: "\<not> empty sample_conf_stats" "\<not> empty sample_rankings"
    by (simp_all add: empty_def sample_conf_stats_def sample_rankings_def)
  have i: "index_of ''Team'' (columns sample_conf_stats) = Some 1"
    and j: "index_of ''Team'' (columns sample_rankings) = Some 1"
    and k: "index_of ''Rank'' (columns sample_rankings) = Some 0"
    by (simp_all add: sample_conf_stats_def sample_rankings_def)
  have keys: "\<forall>r\<in>set (rows sample_conf_stats). \<exists>s. r ! 1 = Str s"
             "\<forall>r\<in>set (rows sample_rankings). \<exists>s. r ! 1 = Str s"
    by (simp_all add: sample_conf_stats_def sample_rankings_def)
  have uniq: "distinct (map (\<lambda>r. r ! 1) (rows sample_rankings))"
    by (simp add: sample_rankings_def)
  have m: "merge_stats_and_rankings sample_conf_stats sample_rankings =
     Inr \<lparr>columns = [''Rank_x'', ''Team'', ''PPG'', ''Conference'', ''Rank_y''],
          rows = [[Str ''1'', Str ''A'', Num 80, Str ''ACC'', Num 6],
                  [Str ''2'', Str ''B'', Null, Str ''SEC'', Num 5],
                  [Str ''3'', Str ''C'', Num 7, Str ''ACC'', Null]]\<rparr>"
    by (simp add: merge_stats_and_rankings_def empty_def sample_conf_stats_def sample_rankings_def
        select_team_rank_def getitem_def pd_merge_left_def remove_nth_def ensure_conference_def
        Let_def)
  from merge_keeps_primary_rows [OF w ne i j k keys uniq] w ne i j k keys uniq m
  show ?thesis unfolding list_all_iff by blast
qed

end
